theory Spec2Isabelle
  imports Main "HOL-Library.Word" "HOL-Library.AList"
begin

section \<open>JavaScript values, promises and the engine collaborator\<close>

text \<open>
  The values that cross the worker boundary or are thrown. An \<open>ErrorObj name message\<close>
  is an Error object; \<open>new Error(m)\<close> is \<open>ErrorObj ''Error'' m\<close>.
\<close>

datatype jsval =
    Undefined
  | Null
  | Bool bool
  | Num int
  | Str string
  | ErrorObj string string
  | Arr "jsval list"
  | Obj "(string \<times> jsval) list"

text \<open>The truth value JavaScript gives a value in \<open>if (v)\<close>, \<open>!v\<close> and \<open>while (v)\<close>.\<close>

fun truthy :: "jsval \<Rightarrow> bool" where
  "truthy Undefined = False"
| "truthy Null = False"
| "truthy (Bool b) = b"
| "truthy (Num n) = (n \<noteq> 0)"
| "truthy (Str s) = (s \<noteq> [])"
| "truthy (ErrorObj n m) = True"
| "truthy (Arr xs) = True"
| "truthy (Obj kvs) = True"

text \<open>\<open>`${error}`\<close> on an Error object (Error.prototype.toString).\<close>

fun error_text :: "string \<Rightarrow> string \<Rightarrow> string" where
  "error_text n m = (if n = [] then m else if m = [] then n else n @ '': '' @ m)"

text \<open>
  \<open>error.message\<close>: reading a property of \<open>undefined\<close> or \<open>null\<close> throws, an Error
  object has its message, an object has the property or not, a primitive has none.
\<close>

datatype 'a result = Returns 'a | Throws string

fun message_of :: "jsval \<Rightarrow> jsval result" where
  "message_of Undefined = Throws ''Cannot read properties of undefined''"
| "message_of Null = Throws ''Cannot read properties of null''"
| "message_of (ErrorObj n m) = Returns (Str m)"
| "message_of (Obj kvs) = Returns (case map_of kvs ''message'' of None \<Rightarrow> Undefined | Some v \<Rightarrow> v)"
| "message_of v = Returns Undefined"

text \<open>
  How an awaited call ends: the promise resolves, rejects, or never settles
  (\<open>Pending\<close>: neither \<open>resolve\<close> nor \<open>reject\<close> is ever called).
\<close>

datatype 'a outcome = Resolved 'a | Rejected jsval | Pending

text \<open>
  The embedded SQL engine is an external collaborator. Each call the worker makes into
  it is recorded in a trace, and the engine answers a call as a function of the calls
  made so far: a call returns a value or throws an Error with a message
  (\<open>Throws m\<close>). A compiled statement is an object with its own cursor: the outcomes
  of its successive \<open>step()\<close> calls are a finite list, after which \<open>step()\<close> reports
  that no row is left. A call of a callback that the caller passed in is recorded in
  the same trace (\<open>Callback\<close>).
\<close>

datatype call =
    ModuleFactory
  | ApiFactory
  | VfsCreate
  | VfsRegister
  | OpenV2 string
  | Exec jsval string
  | Prepare jsval string
  | BindText nat nat jsval
  | Step nat
  | LastInsertRowid nat
  | Get nat
  | Finalize nat
  | Close jsval
  | Callback jsval jsval
  | Statements jsval string
  | BindCollection nat "jsval list"

record stmt =
  sid :: nat
  step_results :: "jsval result list"

text \<open>
  The statement handles of \<open>sqlite3.statements\<close>, read through the column accessors.
  A cell is what the engine holds for one column of the current row: its type tag and
  what each of \<open>column_int\<close>, \<open>column_float\<close> (the bits of the double),
  \<open>column_blob\<close> and \<open>column_text\<close> returns for it. A step returns a result code
  together with the row it makes current, or throws; after the listed steps the
  statement reports that it is done.
\<close>

record cell =
  ctype :: int
  cint :: int
  cfloat :: "64 word"
  cblob :: "8 word list"
  ctext :: string

record pstmt =
  psid :: nat
  column_count :: nat
  column_name :: "nat \<Rightarrow> string"
  psteps :: "(int \<times> (nat \<Rightarrow> cell)) result list"

text \<open>
  The engine, as the worker sees it. \<open>respond\<close> answers every call that returns a
  plain value; \<open>prepare\<close> answers \<open>sqlite3.prepare\<close>; \<open>exec_rows\<close> are the
  \<open>(row, columns)\<close> pairs that \<open>exec\<close> passes to a row callback; \<open>statements_of\<close>
  lists what the asynchronous iterator of \<open>sqlite3.statements(db, sql)\<close> yields, in
  order: a handle, or a failure thrown by \<open>next()\<close>. The result code
  \<open>SQLITE_ROW\<close> and the type tags are constants that the engine library exports;
  their values are part of the engine.
\<close>

record engine =
  respond :: "call list \<Rightarrow> call \<Rightarrow> jsval result"
  prepare :: "call list \<Rightarrow> jsval \<Rightarrow> string \<Rightarrow> stmt result"
  exec_rows :: "call list \<Rightarrow> jsval \<Rightarrow> string \<Rightarrow> (jsval \<times> jsval) list"
  statements_of :: "call list \<Rightarrow> jsval \<Rightarrow> string \<Rightarrow> pstmt result list"
  SQLITE_ROW :: int
  SQLITE_INTEGER :: int
  SQLITE_FLOAT :: int
  SQLITE_TEXT :: int
  SQLITE_BLOB :: int

section \<open>DbHelper (src/public/DBHelperWorker.js)\<close>

text \<open>
  The fields of the class: \<open>db\<close> is \<open>null\<close> after the constructor and the value of
  \<open>open_v2\<close> after \<open>initializeDatabase\<close>; \<open>sqlite3\<close> says whether \<open>this.sqlite3\<close>
  has been assigned.
\<close>

record dbhelper =
  databaseName :: string
  db :: jsval
  sqlite3 :: bool

definition DbHelper :: "string \<Rightarrow> dbhelper" where
  "DbHelper name = \<lparr>databaseName = name, db = Null, sqlite3 = False\<rparr>"

text \<open>
  A caught Error object, as its name and message. \<open>error.message\<close> is the second
  component and \<open>`${error}`\<close> is \<open>error_text\<close> of both.
\<close>

type_synonym jserror = "string \<times> string"

fun error_obj :: "jserror \<Rightarrow> jsval" where
  "error_obj (n, m) = ErrorObj n m"

definition type_error :: jserror where
  "type_error = (''TypeError'', ''Cannot read properties of undefined'')"

text \<open>A call into an imported function of the engine library: \<open>Inl\<close> is the thrown Error.\<close>

definition engine_call :: "engine \<Rightarrow> call list \<Rightarrow> call \<Rightarrow> (jserror + jsval) \<times> call list" where
  "engine_call eng tr c =
     (case respond eng tr c of
        Returns v \<Rightarrow> Inr v
      | Throws m \<Rightarrow> Inl (''Error'', m), tr @ [c])"

text \<open>
  A call \<open>this.sqlite3.f(...)\<close>: a TypeError before the engine is reached when
  \<open>this.sqlite3\<close> is undefined, else the engine's answer.
\<close>

definition sqlite3_call :: "dbhelper \<Rightarrow> engine \<Rightarrow> call list \<Rightarrow> call \<Rightarrow> (jserror + jsval) \<times> call list" where
  "sqlite3_call h eng tr c =
     (if sqlite3 h then engine_call eng tr c else (Inl type_error, tr))"

definition BEGIN :: string where "BEGIN = ''BEGIN TRANSACTION;''"
definition COMMIT :: string where "COMMIT = ''COMMIT;''"
definition ROLLBACK :: string where "ROLLBACK = ''ROLLBACK;''"

subsection \<open>Statement pipeline\<close>

text \<open>The loop of \<open>compileAndBindSQLiteStatement\<close>: \<open>bind_text(i + 1, values[i])\<close>.\<close>

fun bind_values :: "engine \<Rightarrow> nat \<Rightarrow> nat \<Rightarrow> jsval list \<Rightarrow> call list \<Rightarrow> jserror option \<times> call list" where
  "bind_values eng s i [] tr = (None, tr)"
| "bind_values eng s i (v # vs) tr =
     (case respond eng tr (BindText s (i + 1) v) of
        Throws m \<Rightarrow> (Some (''Error'', m), tr @ [BindText s (i + 1) v])
      | Returns u \<Rightarrow> bind_values eng s (i + 1) vs (tr @ [BindText s (i + 1) v]))"

definition compileAndBindSQLiteStatement ::
  "dbhelper \<Rightarrow> engine \<Rightarrow> call list \<Rightarrow> string \<Rightarrow> jsval list \<Rightarrow> (jserror + stmt) \<times> call list" where
  "compileAndBindSQLiteStatement h eng tr sqlQuery vals =
     (if \<not> sqlite3 h then (Inl type_error, tr)
      else case prepare eng tr (db h) sqlQuery of
             Throws m \<Rightarrow> (Inl (''Error'', m), tr @ [Prepare (db h) sqlQuery])
           | Returns st \<Rightarrow>
               (case bind_values eng (sid st) 0 vals (tr @ [Prepare (db h) sqlQuery]) of
                  (Some e, tr') \<Rightarrow> (Inl e, tr')
                | (None, tr') \<Rightarrow> (Inr st, tr')))"

text \<open>One \<open>step()\<close> on a fresh statement.\<close>

definition first_step :: "stmt \<Rightarrow> jsval result" where
  "first_step st = (case step_results st of [] \<Rightarrow> Returns (Bool False) | r # rs \<Rightarrow> r)"

text \<open>
  \<open>executePreparedStatement\<close> builds its promise with \<open>new Promise(async (resolve) => ...)\<close>:
  only \<open>resolve\<close> exists, and it is called at the end of the \<open>finally\<close> block. The
  compile-and-bind call is awaited before the \<open>try\<close>; when it throws, or when
  \<open>finalize()\<close> throws, the executor stops and the promise is never settled.
\<close>

definition executePreparedStatement ::
  "dbhelper \<Rightarrow> engine \<Rightarrow> call list \<Rightarrow> string \<Rightarrow> jsval list \<Rightarrow> (jsval \<times> jsval) outcome \<times> call list" where
  "executePreparedStatement h eng tr sqlQuery vals =
     (case compileAndBindSQLiteStatement h eng tr sqlQuery vals of
        (Inl e, tr1) \<Rightarrow> (Pending, tr1)
      | (Inr st, tr1) \<Rightarrow>
          (let tr2 = tr1 @ [Step (sid st)];
               (runError, lastID, tr3) =
                 (case first_step st of
                    Throws m \<Rightarrow> (Str m, Null, tr2)
                  | Returns u \<Rightarrow>
                      (case respond eng tr2 (LastInsertRowid (sid st)) of
                         Throws m \<Rightarrow> (Str m, Null, tr2 @ [LastInsertRowid (sid st)])
                       | Returns v \<Rightarrow> (Null, v, tr2 @ [LastInsertRowid (sid st)])))
           in case respond eng tr3 (Finalize (sid st)) of
                Throws m \<Rightarrow> (Pending, tr3 @ [Finalize (sid st)])
              | Returns u \<Rightarrow> (Resolved (runError, lastID), tr3 @ [Finalize (sid st)])))"

subsection \<open>Transaction executor\<close>

record statement =
  query :: string
  vals :: "jsval list"

text \<open>
  The \<open>for\<close> loop of \<open>executePreparedStatements\<close>; \<open>Rejected e\<close> is \<open>throw error\<close>
  inside the \<open>try\<close> block.
\<close>

fun run_statements ::
  "dbhelper \<Rightarrow> engine \<Rightarrow> call list \<Rightarrow> statement list \<Rightarrow> jsval list \<Rightarrow> (jsval list) outcome \<times> call list" where
  "run_statements h eng tr [] transactionIDs = (Resolved transactionIDs, tr)"
| "run_statements h eng tr (s # ss) transactionIDs =
     (case executePreparedStatement h eng tr (query s) (vals s) of
        (Pending, tr1) \<Rightarrow> (Pending, tr1)
      | (Rejected e, tr1) \<Rightarrow> (Rejected e, tr1)
      | (Resolved (error, lastID), tr1) \<Rightarrow>
          (if truthy error then (Rejected error, tr1)
           else run_statements h eng tr1 ss (transactionIDs @ [lastID])))"

definition executePreparedStatements ::
  "dbhelper \<Rightarrow> engine \<Rightarrow> call list \<Rightarrow> statement list \<Rightarrow> bool \<Rightarrow> jsval outcome \<times> call list" where
  "executePreparedStatements h eng tr statements rollbackOnError =
     (let (body, tr3) =
        (case sqlite3_call h eng tr (Exec (db h) BEGIN) of
           (Inl e, tr1) \<Rightarrow> (Rejected (error_obj e), tr1)
         | (Inr u, tr1) \<Rightarrow>
             (case run_statements h eng tr1 statements [] of
                (Pending, tr2) \<Rightarrow> (Pending, tr2)
              | (Rejected e, tr2) \<Rightarrow> (Rejected e, tr2)
              | (Resolved transactionIDs, tr2) \<Rightarrow>
                  (case sqlite3_call h eng tr2 (Exec (db h) COMMIT) of
                     (Inl e, tr3) \<Rightarrow> (Rejected (error_obj e), tr3)
                   | (Inr u, tr3) \<Rightarrow> (Resolved (Arr [Null, Arr transactionIDs]), tr3))))
      in case body of
           Resolved v \<Rightarrow> (Resolved v, tr3)
         | Pending \<Rightarrow> (Pending, tr3)
         | Rejected error \<Rightarrow>
             (if rollbackOnError
              then (case sqlite3_call h eng tr3 (Exec (db h) ROLLBACK) of
                      (Inl e, tr4) \<Rightarrow> (Rejected (error_obj e), tr4)
                    | (Inr u, tr4) \<Rightarrow> (Resolved (Arr [error, Null]), tr4))
              else (Resolved (Arr [error, Null]), tr3)))"

text \<open>The \<open>for\<close> loop of \<open>executeQueries\<close>: \<open>Some e\<close> is the first thrown error.\<close>

fun exec_queries :: "dbhelper \<Rightarrow> engine \<Rightarrow> call list \<Rightarrow> string list \<Rightarrow> jserror option \<times> call list" where
  "exec_queries h eng tr [] = (None, tr)"
| "exec_queries h eng tr (q # qs) =
     (case sqlite3_call h eng tr (Exec (db h) q) of
        (Inl e, tr1) \<Rightarrow> (Some e, tr1)
      | (Inr u, tr1) \<Rightarrow> exec_queries h eng tr1 qs)"

definition not_initialized :: jsval where
  "not_initialized = ErrorObj ''Error'' ''Database not initialized''"

definition executeQueries ::
  "dbhelper \<Rightarrow> engine \<Rightarrow> call list \<Rightarrow> string list \<Rightarrow> bool \<Rightarrow> jsval outcome \<times> call list" where
  "executeQueries h eng tr queries rollbackOnError =
     (if \<not> truthy (db h) then (Rejected not_initialized, tr)
      else
        (let (thrown, tr3) =
           (case sqlite3_call h eng tr (Exec (db h) BEGIN) of
              (Inl e, tr1) \<Rightarrow> (Some e, tr1)
            | (Inr u, tr1) \<Rightarrow>
                (case exec_queries h eng tr1 queries of
                   (Some e, tr2) \<Rightarrow> (Some e, tr2)
                 | (None, tr2) \<Rightarrow>
                     (case sqlite3_call h eng tr2 (Exec (db h) COMMIT) of
                        (Inl e, tr3) \<Rightarrow> (Some e, tr3)
                      | (Inr u, tr3) \<Rightarrow> (None, tr3))))
         in case thrown of
              None \<Rightarrow> (Resolved Undefined, tr3)
            | Some error \<Rightarrow>
                (if rollbackOnError
                 then (case sqlite3_call h eng tr3 (Exec (db h) ROLLBACK) of
                         (Inl e, tr4) \<Rightarrow> (Rejected (error_obj e), tr4)
                       | (Inr u, tr4) \<Rightarrow>
                           (Rejected (ErrorObj ''Error''
                              (''Transaction failed, rolled back: '' @ snd error)), tr4))
                 else (Resolved Undefined, tr3))))"

subsection \<open>Connection, raw queries, select, table check, close\<close>

text \<open>
  \<open>initializeDatabase\<close>: the module factory, the API factory (assigned to
  \<open>this.sqlite3\<close>), the file system and its registration, then \<open>open_v2\<close>, whose
  value is assigned to \<open>this.db\<close>. The helper is returned as the failure left it.
\<close>

definition initializeDatabase :: "dbhelper \<Rightarrow> engine \<Rightarrow> call list \<Rightarrow> (jserror option \<times> dbhelper) \<times> call list" where
  "initializeDatabase h eng tr =
     (case engine_call eng tr ModuleFactory of
        (Inl e, tr1) \<Rightarrow> ((Some e, h), tr1)
      | (Inr sqliteModule, tr1) \<Rightarrow>
          (case engine_call eng tr1 ApiFactory of
             (Inl e, tr2) \<Rightarrow> ((Some e, h), tr2)
           | (Inr api, tr2) \<Rightarrow>
               (let h1 = h\<lparr>sqlite3 := True\<rparr> in
                case engine_call eng tr2 VfsCreate of
                  (Inl e, tr3) \<Rightarrow> ((Some e, h1), tr3)
                | (Inr vfs, tr3) \<Rightarrow>
                    (case sqlite3_call h1 eng tr3 VfsRegister of
                       (Inl e, tr4) \<Rightarrow> ((Some e, h1), tr4)
                     | (Inr u, tr4) \<Rightarrow>
                         (case sqlite3_call h1 eng tr4 (OpenV2 (databaseName h1)) of
                            (Inl e, tr5) \<Rightarrow> ((Some e, h1), tr5)
                          | (Inr d, tr5) \<Rightarrow> ((None, h1\<lparr>db := d\<rparr>), tr5))))))"

definition MAX_SQL_CACHE_SIZE :: string where
  "MAX_SQL_CACHE_SIZE = ''100''"

text \<open>
  \<open>setMaxSqlCacheSize\<close> is not \<open>async\<close> here and does not await \<open>exec\<close>: the call is
  made and its outcome is dropped.
\<close>

definition setMaxSqlCacheSize :: "dbhelper \<Rightarrow> engine \<Rightarrow> call list \<Rightarrow> call list" where
  "setMaxSqlCacheSize h eng tr =
     (if truthy (db h)
      then snd (sqlite3_call h eng tr (Exec (db h) (''PRAGMA cache_size = '' @ MAX_SQL_CACHE_SIZE @ '';'')))
      else tr)"

definition createDBConnection :: "engine \<Rightarrow> call list \<Rightarrow> string \<Rightarrow> dbhelper outcome \<times> call list" where
  "createDBConnection eng tr name =
     (case initializeDatabase (DbHelper name) eng tr of
        ((Some e, h), tr1) \<Rightarrow> (Rejected (error_obj e), tr1)
      | ((None, h), tr1) \<Rightarrow> (Resolved h, setMaxSqlCacheSize h eng tr1))"

text \<open>
  \<open>executeRawQuery\<close> hands \<open>exec\<close> a row callback that pushes \<open>{row, columns}\<close>;
  \<open>exec_rows\<close> are the pairs the engine calls it with. \<open>selectionArgs\<close> is not used.
\<close>

definition executeRawQuery :: "dbhelper \<Rightarrow> engine \<Rightarrow> call list \<Rightarrow> string \<Rightarrow> jsval list \<Rightarrow> jsval outcome \<times> call list" where
  "executeRawQuery h eng tr sqlText selArgs =
     (if \<not> truthy (db h) then (Rejected not_initialized, tr)
      else case sqlite3_call h eng tr (Exec (db h) sqlText) of
             (Inl (n, m), tr1) \<Rightarrow>
               (Rejected (ErrorObj ''Error'' (''Query failed: '' @ error_text n m)), tr1)
           | (Inr u, tr1) \<Rightarrow>
               (Resolved (Arr (map (\<lambda>(row, columns). Obj [(''row'', row), (''columns'', columns)])
                                 (exec_rows eng tr (db h) sqlText))), tr1))"

text \<open>
  The loop \<open>while (preparedStatement.step()) result.push(preparedStatement.get())\<close> over
  the statement's remaining step outcomes.
\<close>

fun collect_rows :: "engine \<Rightarrow> nat \<Rightarrow> jsval result list \<Rightarrow> call list \<Rightarrow> jsval list \<Rightarrow> (jserror + jsval list) \<times> call list" where
  "collect_rows eng s [] tr acc = (Inr acc, tr @ [Step s])"
| "collect_rows eng s (r # rs) tr acc =
     (case r of
        Throws m \<Rightarrow> (Inl (''Error'', m), tr @ [Step s])
      | Returns v \<Rightarrow>
          (if truthy v
           then (case engine_call eng (tr @ [Step s]) (Get s) of
                   (Inl e, tr1) \<Rightarrow> (Inl e, tr1)
                 | (Inr row, tr1) \<Rightarrow> collect_rows eng s rs tr1 (acc @ [row]))
           else (Inr acc, tr @ [Step s])))"

definition not_a_function :: jserror where
  "not_a_function = (''TypeError'', ''callback is not a function'')"

text \<open>
  A call \<open>callback(err, result)\<close>: recorded when a function was passed, a TypeError
  when the parameter is undefined.
\<close>

definition call_back :: "bool \<Rightarrow> call list \<Rightarrow> jsval \<Rightarrow> jsval \<Rightarrow> jserror option \<times> call list" where
  "call_back callback tr err res =
     (if callback then (None, tr @ [Callback err res]) else (Some not_a_function, tr))"

definition executeSelectPreparedStatements ::
  "dbhelper \<Rightarrow> engine \<Rightarrow> call list \<Rightarrow> string \<Rightarrow> jsval list \<Rightarrow> bool \<Rightarrow> jsval outcome \<times> call list" where
  "executeSelectPreparedStatements h eng tr sqlText selArgs callback =
     (case compileAndBindSQLiteStatement h eng tr sqlText selArgs of
        (Inl e, tr1) \<Rightarrow> (Rejected (error_obj e), tr1)
      | (Inr st, tr1) \<Rightarrow>
          (let (escaped, tr3) =
             (case (case collect_rows eng (sid st) (step_results st) tr1 [] of
                      (Inl e, tr2) \<Rightarrow> (Some e, tr2)
                    | (Inr rows, tr2) \<Rightarrow> call_back callback tr2 Null (Arr rows)) of
                (None, tr2) \<Rightarrow> (None, tr2)
              | (Some err, tr2) \<Rightarrow> call_back callback tr2 (error_obj err) Null)
           in case engine_call eng tr3 (Finalize (sid st)) of
                (Inl e, tr4) \<Rightarrow> (Rejected (error_obj e), tr4)
              | (Inr u, tr4) \<Rightarrow>
                  (case escaped of
                     Some e \<Rightarrow> (Rejected (error_obj e), tr4)
                   | None \<Rightarrow> (Resolved Undefined, tr4))))"

text \<open>
  \<open>result.length > 0\<close> on the value \<open>exec\<close> returned: reading \<open>length\<close> of
  \<open>undefined\<close> or \<open>null\<close> throws; an array or a string has its length; a number or a
  boolean has none, and \<open>undefined > 0\<close> is false. For an object the property is
  compared when it is a number.
\<close>

fun length_gt_zero :: "jsval \<Rightarrow> bool result" where
  "length_gt_zero Undefined = Throws ''Cannot read properties of undefined''"
| "length_gt_zero Null = Throws ''Cannot read properties of null''"
| "length_gt_zero (Arr xs) = Returns (xs \<noteq> [])"
| "length_gt_zero (Str s) = Returns (s \<noteq> [])"
| "length_gt_zero (Obj kvs) = Returns (case map_of kvs ''length'' of Some (Num n) \<Rightarrow> 0 < n | _ \<Rightarrow> False)"
| "length_gt_zero v = Returns False"

definition table_query :: "string \<Rightarrow> string" where
  "table_query tableName =
     ''SELECT DISTINCT tbl_name FROM sqlite_master WHERE tbl_name = '' @ [CHR 0x27] @ tableName @ [CHR 0x27]"

text \<open>
  \<open>isTableFound\<close> never rejects: it calls its callback once, with \<open>(null, found)\<close> or
  \<open>(err, false)\<close>. The value here is that pair of arguments.
\<close>

definition isTableFound :: "dbhelper \<Rightarrow> engine \<Rightarrow> call list \<Rightarrow> string \<Rightarrow> (jsval \<times> bool) \<times> call list" where
  "isTableFound h eng tr tableName =
     (case sqlite3_call h eng tr (Exec (db h) (table_query tableName)) of
        (Inl e, tr1) \<Rightarrow> ((error_obj e, False), tr1)
      | (Inr res, tr1) \<Rightarrow>
          (case length_gt_zero res of
             Throws m \<Rightarrow> ((ErrorObj ''TypeError'' m, False), tr1)
           | Returns b \<Rightarrow> ((Null, b), tr1)))"

text \<open>\<open>closeDatabase\<close> closes the handle when it is truthy and assigns nothing.\<close>

definition closeDatabase :: "dbhelper \<Rightarrow> engine \<Rightarrow> call list \<Rightarrow> jsval outcome \<times> call list" where
  "closeDatabase h eng tr =
     (if truthy (db h)
      then (case sqlite3_call h eng tr (Close (db h)) of
              (Inl e, tr1) \<Rightarrow> (Rejected (error_obj e), tr1)
            | (Inr u, tr1) \<Rightarrow> (Resolved Undefined, tr1))
      else (Resolved Undefined, tr))"

section \<open>Command dispatcher (self.onmessage)\<close>

text \<open>
  \<open>event.data\<close>. A field the caller leaves out is \<open>undefined\<close>; only \<open>rollbackOnError\<close>
  is modelled as optional, since its default parameter value decides what runs.
\<close>

record message =
  operationId :: string
  action :: string
  dbName :: string
  sql :: string
  queries :: "string list"
  statements :: "statement list"
  selectionArgs :: "jsval list"
  rollbackOnError :: "bool option"

datatype reply = ResultReply string jsval | ErrorReply string jsval

text \<open>
  The worker: the module variable \<open>dbInstance\<close> (undefined until a connection is
  made), the engine calls made so far and the replies posted so far.
\<close>

record worker =
  dbInstance :: "dbhelper option"
  calls :: "call list"
  posted :: "reply list"

definition default_true :: "bool option \<Rightarrow> bool" where
  "default_true b = (case b of None \<Rightarrow> True | Some v \<Rightarrow> v)"

text \<open>
  The \<open>switch\<close>: the outcome of the chosen handler (the value assigned to \<open>result\<close>, or
  what was thrown), the new \<open>dbInstance\<close> and the trace. A method call on an undefined
  \<open>dbInstance\<close> throws a TypeError.
\<close>

definition handle :: "engine \<Rightarrow> worker \<Rightarrow> message \<Rightarrow> jsval outcome \<times> dbhelper option \<times> call list" where
  "handle eng w msg =
     (let tr = calls w; inst = dbInstance w in
      if action msg = ''createDBConnection'' then
        (case createDBConnection eng tr (dbName msg) of
           (Resolved h, tr1) \<Rightarrow>
             (Resolved (Obj [(''success'', Bool True),
                             (''message'', Str (''Database '' @ dbName msg @ '' created''))]), Some h, tr1)
         | (Rejected e, tr1) \<Rightarrow> (Rejected e, inst, tr1)
         | (Pending, tr1) \<Rightarrow> (Pending, inst, tr1))
      else if action msg = ''executeRawQuery'' then
        (case inst of
           None \<Rightarrow> (Rejected (error_obj type_error), inst, tr)
         | Some h \<Rightarrow> (case executeRawQuery h eng tr (sql msg) [] of (r, tr1) \<Rightarrow> (r, inst, tr1)))
      else if action msg = ''executeQueries'' then
        (case inst of
           None \<Rightarrow> (Rejected (error_obj type_error), inst, tr)
         | Some h \<Rightarrow>
             (case executeQueries h eng tr (queries msg) (default_true (rollbackOnError msg)) of
                (Resolved u, tr1) \<Rightarrow>
                  (Resolved (Obj [(''success'', Bool True),
                                  (''message'', Str ''Queries executed successfully'')]), inst, tr1)
              | (r, tr1) \<Rightarrow> (r, inst, tr1)))
      else if action msg = ''executePreparedStatements'' then
        (case inst of
           None \<Rightarrow> (Rejected (error_obj type_error), inst, tr)
         | Some h \<Rightarrow>
             (case executePreparedStatements h eng tr (statements msg) (default_true (rollbackOnError msg)) of
                (r, tr1) \<Rightarrow> (r, inst, tr1)))
      else if action msg = ''executeSelectPreparedStatements'' then
        (case inst of
           None \<Rightarrow> (Rejected (error_obj type_error), inst, tr)
         | Some h \<Rightarrow>
             (case executeSelectPreparedStatements h eng tr (sql msg) (selectionArgs msg) False of
                (r, tr1) \<Rightarrow> (r, inst, tr1)))
      else if action msg = ''isTableFound'' then
        (case inst of
           None \<Rightarrow> (Rejected (error_obj type_error), inst, tr)
         | Some h \<Rightarrow>
             (case isTableFound h eng tr (dbName msg) of
                ((err, isFound), tr1) \<Rightarrow> (Resolved (Obj [(''success'', Bool isFound)]), inst, tr1)))
      else if action msg = ''closeDatabase'' then
        (case inst of
           None \<Rightarrow> (Rejected (error_obj type_error), inst, tr)
         | Some h \<Rightarrow>
             (case closeDatabase h eng tr of
                (Resolved u, tr1) \<Rightarrow>
                  (Resolved (Obj [(''success'', Bool True),
                                  (''message'', Str ''Database closed successfully'')]), inst, tr1)
              | (r, tr1) \<Rightarrow> (r, inst, tr1)))
      else (Resolved (Obj [(''error'', Str ''Unknown action'')]), inst, tr))"

text \<open>
  \<open>self.onmessage\<close>: the result is posted after the \<open>switch\<close>; a thrown value is
  caught and its \<open>message\<close> posted. Nothing is posted while the handler's promise is
  unsettled, or when reading \<open>error.message\<close> itself throws.
\<close>

definition onmessage :: "engine \<Rightarrow> worker \<Rightarrow> message \<Rightarrow> worker" where
  "onmessage eng w msg =
     (case handle eng w msg of
        (Resolved res, inst, tr) \<Rightarrow>
          \<lparr>dbInstance = inst, calls = tr, posted = posted w @ [ResultReply (operationId msg) res]\<rparr>
      | (Rejected error, inst, tr) \<Rightarrow>
          (case message_of error of
             Returns m \<Rightarrow>
               \<lparr>dbInstance = inst, calls = tr, posted = posted w @ [ErrorReply (operationId msg) m]\<rparr>
           | Throws m \<Rightarrow> \<lparr>dbInstance = inst, calls = tr, posted = posted w\<rparr>)
      | (Pending, inst, tr) \<Rightarrow> \<lparr>dbInstance = inst, calls = tr, posted = posted w\<rparr>)"

section \<open>Query reader (executeRawQuery of src/unnamed/part_000)\<close>

datatype colval = IntVal int | FloatVal "64 word" | BlobVal "8 word list" | TextVal string

type_synonym row = "(string \<times> colval) list"

text \<open>
  The \<open>switch (columnType)\<close>, its cases in the order of the source: text is both the
  \<open>SQLITE_TEXT\<close> case and the default.
\<close>

definition column_value :: "engine \<Rightarrow> cell \<Rightarrow> colval" where
  "column_value eng c =
     (if ctype c = SQLITE_INTEGER eng then IntVal (cint c)
      else if ctype c = SQLITE_FLOAT eng then FloatVal (cfloat c)
      else if ctype c = SQLITE_BLOB eng then BlobVal (cblob c)
      else if ctype c = SQLITE_TEXT eng then TextVal (ctext c)
      else TextVal (ctext c))"

text \<open>
  \<open>row[columnNames[i]] = ...\<close> for \<open>i\<close> from 0 below \<open>columnCount\<close>: assigning to a name
  already present replaces its value.
\<close>

definition read_row :: "engine \<Rightarrow> (nat \<Rightarrow> string) \<Rightarrow> nat \<Rightarrow> (nat \<Rightarrow> cell) \<Rightarrow> row" where
  "read_row eng columnNames columnCount cells =
     foldl (\<lambda>r i. AList.update (columnNames i) (column_value eng (cells i)) r) [] [0..<columnCount]"





section \<open>Operation correlation router (src/wasm-sql/DatabaseManager.js)\<close>

text \<open>
  A waiter is the \<open>{resolve, reject}\<close> pair of one promise, named by a number. The
  router's effects are recorded in order: writes to the \<open>pendingOperations\<close> map,
  messages posted to the worker, and settlements of waiters.
\<close>

datatype router_event =
    MapSet string nat
  | WorkerPost message
  | Resolve nat jsval
  | Reject nat jsval
  | MapDelete string

record router =
  worker_alive :: bool
  pendingOperations :: "(string \<times> nat) list"
  events :: "router_event list"

definition DatabaseManager :: router where
  "DatabaseManager = \<lparr>worker_alive = True, pendingOperations = [], events = []\<rparr>"

text \<open>
  \<open>Math.random().toString(36).substr(2, 9)\<close>, as a function of the text
  \<open>Math.random().toString(36)\<close> that the runtime's generator produced.
\<close>

definition generateOperationId :: "string \<Rightarrow> string" where
  "generateOperationId random36 = take 9 (drop 2 random36)"

text \<open>
  The \<open>data\<close> object of a send: the payload fields, and the keys \<open>operationId\<close> and
  \<open>action\<close> when \<open>data\<close> has them itself.
\<close>

record request_data =
  own_operationId :: "string option"
  own_action :: "string option"
  data_dbName :: string
  data_sql :: string
  data_queries :: "string list"
  data_statements :: "statement list"
  data_selectionArgs :: "jsval list"
  data_rollbackOnError :: "bool option"

text \<open>
  The object literal \<open>{operationId, action, ...data}\<close>: the spread comes last, so a key
  of \<open>data\<close> replaces the generated id or the action.
\<close>

definition spread_message :: "string \<Rightarrow> string \<Rightarrow> request_data \<Rightarrow> message" where
  "spread_message opId act data =
     \<lparr>operationId = (case own_operationId data of None \<Rightarrow> opId | Some i \<Rightarrow> i),
      action = (case own_action data of None \<Rightarrow> act | Some a \<Rightarrow> a),
      dbName = data_dbName data,
      sql = data_sql data,
      queries = data_queries data,
      statements = data_statements data,
      selectionArgs = data_selectionArgs data,
      rollbackOnError = data_rollbackOnError data\<rparr>"

text \<open>The TypeError of \<open>this.worker.postMessage\<close> when \<open>this.worker\<close> is null.\<close>

definition null_worker_error :: jsval where
  "null_worker_error =
     ErrorObj ''TypeError''
       (''Cannot read properties of null (reading '' @ [CHR 0x27] @ ''postMessage''
          @ [CHR 0x27] @ '')'')"

text \<open>
  \<open>postToWorker\<close>: the promise executor stores the waiter, then posts
  \<open>{operationId, action, ...data}\<close>. When \<open>this.worker\<close> is null the post throws
  inside the executor, which rejects the new promise.
\<close>

definition postToWorker :: "router \<Rightarrow> string \<Rightarrow> nat \<Rightarrow> string \<Rightarrow> request_data \<Rightarrow> router" where
  "postToWorker r random36 waiter act data =
     (let opId = generateOperationId random36;
          r1 = r\<lparr>pendingOperations := AList.update opId waiter (pendingOperations r),
                 events := events r @ [MapSet opId waiter]\<rparr>
      in if worker_alive r1
         then r1\<lparr>events := events r1 @ [WorkerPost (spread_message opId act data)]\<rparr>
         else r1\<lparr>events := events r1 @ [Reject waiter null_worker_error]\<rparr>)"

text \<open>\<open>this.worker.onmessage\<close>: \<open>{operationId, result, error}\<close> of a reply.\<close>

fun reply_fields :: "reply \<Rightarrow> string \<times> jsval \<times> jsval" where
  "reply_fields (ResultReply i res) = (i, res, Undefined)"
| "reply_fields (ErrorReply i err) = (i, Undefined, err)"

definition DatabaseManager_onmessage :: "router \<Rightarrow> reply \<Rightarrow> router" where
  "DatabaseManager_onmessage r rep =
     (case reply_fields rep of
        (opId, res, error) \<Rightarrow>
          (case map_of (pendingOperations r) opId of
             None \<Rightarrow> r
           | Some waiter \<Rightarrow>
               r\<lparr>events := events r @
                    [if truthy error then Reject waiter error else Resolve waiter res, MapDelete opId],
                  pendingOperations := AList.delete opId (pendingOperations r)\<rparr>))"

definition terminateWorker :: "router \<Rightarrow> router" where
  "terminateWorker r = r\<lparr>worker_alive := False\<rparr>"

text \<open>A run of the router: sends, replies and disposal, in the order they happen.\<close>

datatype router_op =
    Send string nat string request_data
  | Receive reply
  | Terminate

fun router_step :: "router \<Rightarrow> router_op \<Rightarrow> router" where
  "router_step r (Send random36 waiter act data) = postToWorker r random36 waiter act data"
| "router_step r (Receive rep) = DatabaseManager_onmessage r rep"
| "router_step r Terminate = terminateWorker r"

definition router_run :: "router_op list \<Rightarrow> router" where
  "router_run ops = foldl router_step DatabaseManager ops"

text \<open>
  Replaying a list of router events against a table, with the event that came just
  before: each message posted to the worker directly follows a \<open>set\<close> that stored
  a waiter, and the table holds that waiter under that id when the message is posted.
\<close>

fun registered_then_posted :: "(string \<times> nat) list \<Rightarrow> router_event option \<Rightarrow> router_event list \<Rightarrow> bool" where
  "registered_then_posted tbl prev [] = True"
| "registered_then_posted tbl prev (MapSet i w # es) =
     registered_then_posted (AList.update i w tbl) (Some (MapSet i w)) es"
| "registered_then_posted tbl prev (MapDelete i # es) =
     registered_then_posted (AList.delete i tbl) (Some (MapDelete i)) es"
| "registered_then_posted tbl prev (WorkerPost m # es) =
     ((case prev of
         Some (MapSet i w) \<Rightarrow> map_of tbl i = Some w
       | _ \<Rightarrow> False)
      \<and> registered_then_posted tbl (Some (WorkerPost m)) es)"
| "registered_then_posted tbl prev (Resolve w v # es) =
     registered_then_posted tbl (Some (Resolve w v)) es"
| "registered_then_posted tbl prev (Reject w v # es) =
     registered_then_posted tbl (Some (Reject w v)) es"

text \<open>
  The waiters stored during a run, read off the recorded events, and the waiters that
  the sends of a run ask to store, read off the operations.
\<close>

fun stored_waiters :: "router_event list \<Rightarrow> (string \<times> nat) list" where
  "stored_waiters [] = []"
| "stored_waiters (MapSet i w # es) = (i, w) # stored_waiters es"
| "stored_waiters (e # es) = stored_waiters es"

fun sent_waiters :: "router_op list \<Rightarrow> (string \<times> nat) list" where
  "sent_waiters [] = []"
| "sent_waiters (Send random36 waiter act data # ops) =
     (generateOperationId random36, waiter) # sent_waiters ops"
| "sent_waiters (op # ops) = sent_waiters ops"

definition last_event :: "router_event option \<Rightarrow> router_event list \<Rightarrow> router_event option" where
  "last_event prev es = (if es = [] then prev else Some (last es))"

fun replay :: "(string \<times> nat) list \<Rightarrow> router_event list \<Rightarrow> (string \<times> nat) list" where
  "replay tbl [] = tbl"
| "replay tbl (MapSet i w # es) = replay (AList.update i w tbl) es"
| "replay tbl (MapDelete i # es) = replay (AList.delete i tbl) es"
| "replay tbl (e # es) = replay tbl es"

section \<open>Notions used to state the properties\<close>

text \<open>
  The statement pipeline run on each statement of a batch in turn, each run starting
  from the trace its predecessor left, whatever the outcomes: the outcome and the trace
  after each statement.
\<close>

fun pipeline_runs ::
  "dbhelper \<Rightarrow> engine \<Rightarrow> call list \<Rightarrow> statement list \<Rightarrow> ((jsval \<times> jsval) outcome \<times> call list) list" where
  "pipeline_runs h eng tr [] = []"
| "pipeline_runs h eng tr (s # ss) =
     executePreparedStatement h eng tr (query s) (vals s)
       # pipeline_runs h eng (snd (executePreparedStatement h eng tr (query s) (vals s))) ss"

fun error_slot :: "(jsval \<times> jsval) outcome \<times> call list \<Rightarrow> jsval" where
  "error_slot (Resolved (error, lastID), tr) = error"
| "error_slot (r, tr) = Undefined"

fun last_id :: "(jsval \<times> jsval) outcome \<times> call list \<Rightarrow> jsval" where
  "last_id (Resolved (error, lastID), tr) = lastID"
| "last_id (r, tr) = Undefined"

text \<open>
  A run reports an error when it resolves with a truthy error slot, which is what
  \<open>if (error) throw error\<close> tests; it succeeds when it resolves with a falsy one.
\<close>

fun reports_error :: "(jsval \<times> jsval) outcome \<times> call list \<Rightarrow> bool" where
  "reports_error (Resolved (error, lastID), tr) = truthy error"
| "reports_error (r, tr) = False"

fun succeeds :: "(jsval \<times> jsval) outcome \<times> call list \<Rightarrow> bool" where
  "succeeds (Resolved (error, lastID), tr) = (\<not> truthy error)"
| "succeeds (r, tr) = False"

definition trace_after :: "call list \<Rightarrow> ('a \<times> call list) list \<Rightarrow> call list" where
  "trace_after tr runs = (if runs = [] then tr else snd (last runs))"

fun is_exec :: "call \<Rightarrow> bool" where
  "is_exec (Exec d q) = True"
| "is_exec c = False"










section \<open>Concrete engines and inputs\<close>

text \<open>
  An engine in which the calls selected by \<open>fails\<close> throw the given message and every
  other call returns: \<open>lastInsertRowid\<close> counts the row ids handed out so far, any other
  call returns 0. A statement compiled from text \<open>q\<close> has the step outcomes \<open>steps q\<close>.
  The constants have the values of SQLite.
\<close>

fun is_rowid_call :: "call \<Rightarrow> bool" where
  "is_rowid_call (LastInsertRowid s) = True"
| "is_rowid_call c = False"

definition scripted_engine :: "(call \<Rightarrow> string option) \<Rightarrow> (string \<Rightarrow> jsval result list) \<Rightarrow> engine" where
  "scripted_engine fails steps =
     \<lparr>respond = (\<lambda>tr c. case fails c of
                            Some m \<Rightarrow> Throws m
                          | None \<Rightarrow> (if is_rowid_call c
                                     then Returns (Num (1 + int (length (filter is_rowid_call tr))))
                                     else Returns (Num 0))),
      prepare = (\<lambda>tr d q. case fails (Prepare d q) of
                             Some m \<Rightarrow> Throws m
                           | None \<Rightarrow> Returns \<lparr>sid = length tr, step_results = steps q\<rparr>),
      exec_rows = (\<lambda>tr d q. []),
      statements_of = (\<lambda>tr d q. []),
      SQLITE_ROW = 100, SQLITE_INTEGER = 1, SQLITE_FLOAT = 2, SQLITE_TEXT = 3, SQLITE_BLOB = 4\<rparr>"

definition open_helper :: dbhelper where
  "open_helper = \<lparr>databaseName = ''sync'', db = Num 1, sqlite3 = True\<rparr>"

definition blank_message :: message where
  "blank_message =
     \<lparr>operationId = [], action = [], dbName = [], sql = [], queries = [], statements = [],
      selectionArgs = [], rollbackOnError = None\<rparr>"

text \<open>A \<open>data\<close> object with no key of its own, as the wrapper methods with no argument pass.\<close>

definition blank_data :: request_data where
  "blank_data =
     \<lparr>own_operationId = None, own_action = None, data_dbName = [], data_sql = [],
      data_queries = [], data_statements = [], data_selectionArgs = [],
      data_rollbackOnError = None\<rparr>"

definition insert_alice :: statement where
  "insert_alice = \<lparr>query = ''INSERT INTO test_table (name) VALUES (?);'', vals = [Str ''Alice'']\<rparr>"

definition insert_bob :: statement where
  "insert_bob = \<lparr>query = ''INSERT INTO test_table (name) VALUES (?);'', vals = [Str ''Bob'']\<rparr>"

definition dup_query :: string where
  "dup_query = ''INSERT OR ROLLBACK INTO test_table (id) VALUES (1);''"

definition insert_duplicate :: statement where
  "insert_duplicate = \<lparr>query = dup_query, vals = []\<rparr>"

definition create_table :: string where
  "create_table = ''CREATE TABLE IF NOT EXISTS test_table (id INTEGER PRIMARY KEY AUTOINCREMENT, name TEXT);''"

definition select_alice :: string where
  "select_alice = ''SELECT * FROM test_table WHERE name = ?;''"

text \<open>Every call returns; a compiled statement has one row.\<close>

definition accepting_engine :: engine where
  "accepting_engine = scripted_engine (\<lambda>c. None) (\<lambda>q. [Returns (Bool True)])"

text \<open>The text \<open>INSERT INTO\<close> does not compile.\<close>

definition syntax_error_engine :: engine where
  "syntax_error_engine =
     scripted_engine
       (\<lambda>c. case c of
               Prepare d q \<Rightarrow> if q = ''INSERT INTO'' then Some ''near INTO: syntax error'' else None
             | _ \<Rightarrow> None)
       (\<lambda>q. [Returns (Bool True)])"

text \<open>Binding a parameter fails.\<close>

definition bind_error_engine :: engine where
  "bind_error_engine =
     scripted_engine
       (\<lambda>c. case c of BindText s i v \<Rightarrow> Some ''column index out of range'' | _ \<Rightarrow> None)
       (\<lambda>q. [Returns (Bool True)])"

text \<open>
  The duplicate insert violates a constraint, both as a prepared statement and
  through \<open>exec\<close>. With \<open>auto_rolled_back\<close> the engine has rolled the transaction back
  by itself when the constraint failed, so that a later \<open>ROLLBACK\<close> is an error.
\<close>

definition constraint_engine :: "bool \<Rightarrow> engine" where
  "constraint_engine auto_rolled_back =
     scripted_engine
       (\<lambda>c. case c of
               Exec d q \<Rightarrow>
                 if q = dup_query then Some ''UNIQUE constraint failed: test_table.id''
                 else if q = ROLLBACK \<and> auto_rolled_back
                 then Some ''cannot rollback - no transaction is active''
                 else None
             | _ \<Rightarrow> None)
       (\<lambda>q. if q = dup_query then [Throws ''UNIQUE constraint failed: test_table.id'']
             else [Returns (Bool True)])"

text \<open>\<open>COMMIT\<close> fails.\<close>

definition commit_fails_engine :: engine where
  "commit_fails_engine =
     scripted_engine
       (\<lambda>c. case c of Exec d q \<Rightarrow> if q = COMMIT then Some ''disk I/O error'' else None | _ \<Rightarrow> None)
       (\<lambda>q. [Returns (Bool True)])"

text \<open>\<open>COMMIT\<close> fails, and so does the \<open>ROLLBACK\<close> after it.\<close>

definition commit_rollback_fail_engine :: engine where
  "commit_rollback_fail_engine =
     scripted_engine
       (\<lambda>c. case c of
               Exec d q \<Rightarrow>
                 if q = COMMIT then Some ''disk I/O error''
                 else if q = ROLLBACK then Some ''cannot rollback - no transaction is active''
                 else None
             | _ \<Rightarrow> None)
       (\<lambda>q. [Returns (Bool True)])"

text \<open>\<open>open_v2\<close> fails, and a call on a null handle is refused.\<close>

definition misuse_engine :: engine where
  "misuse_engine =
     scripted_engine
       (\<lambda>c. case c of
               OpenV2 n \<Rightarrow> Some ''unable to open database file''
             | Exec d q \<Rightarrow> if d = Null then Some ''bad parameter or other API misuse'' else None
             | Prepare d q \<Rightarrow> if d = Null then Some ''bad parameter or other API misuse'' else None
             | _ \<Rightarrow> None)
       (\<lambda>q. [Returns (Bool True)])"

definition connected_worker :: worker where
  "connected_worker = \<lparr>dbInstance = Some open_helper, calls = [], posted = []\<rparr>"











section \<open>The router\<close>

lemma replay_append: "replay tbl (es @ es') = replay (replay tbl es) es'"
  by (induction tbl es rule: replay.induct) auto

lemma registered_then_posted_append:
  "registered_then_posted tbl prev (es @ es') =
     (registered_then_posted tbl prev es
      \<and> registered_then_posted (replay tbl es) (last_event prev es) es')"
  by (induction tbl prev es rule: registered_then_posted.induct) (auto simp: last_event_def)

lemma map_of_update_same: "map_of (AList.update k v al) k = Some v"
  by (simp add: update_conv')

text \<open>
  One router operation keeps two facts: the recorded map writes replay to the current
  \<open>pendingOperations\<close>, and every posted message directly followed its registration.
\<close>

lemma router_step_invariant:
  assumes "replay [] (events r) = pendingOperations r"
    and "registered_then_posted [] None (events r)"
  shows "replay [] (events (router_step r op)) = pendingOperations (router_step r op)
         \<and> registered_then_posted [] None (events (router_step r op))"
proof (cases op)
  case (Send random36 waiter act data)
  then show ?thesis using assms
    by (simp add: postToWorker_def Let_def replay_append registered_then_posted_append
          map_of_update_same last_event_def)
next
  case (Receive rep)
  then show ?thesis using assms
    by (cases rep)
       (auto simp: DatabaseManager_onmessage_def replay_append registered_then_posted_append
             split: option.splits)
next
  case Terminate
  then show ?thesis using assms by (simp add: terminateWorker_def)
qed

lemma router_run_invariant:
  "replay [] (events (router_run ops)) = pendingOperations (router_run ops)
   \<and> registered_then_posted [] None (events (router_run ops))"
proof (induction ops rule: rev_induct)
  case Nil
  then show ?case by (simp add: router_run_def DatabaseManager_def)
next
  case (snoc op ops)
  then show ?case
    using router_step_invariant [of "router_run ops" op] by (simp add: router_run_def)
qed

lemma stored_waiters_append:
  "stored_waiters (es @ es') = stored_waiters es @ stored_waiters es'"
  by (induction es rule: stored_waiters.induct) simp_all

lemma sent_waiters_append: "sent_waiters (ops @ ops') = sent_waiters ops @ sent_waiters ops'"
  by (induction ops rule: sent_waiters.induct) simp_all

lemma stored_waiters_step:
  "stored_waiters (events (router_step r op)) = stored_waiters (events r) @ sent_waiters [op]"
proof (cases op)
  case (Send random36 waiter act data)
  then show ?thesis
    by (simp add: postToWorker_def Let_def stored_waiters_append)
next
  case (Receive rep)
  then show ?thesis
    by (cases rep)
       (auto simp: DatabaseManager_onmessage_def stored_waiters_append split: option.splits)
next
  case Terminate
  then show ?thesis by (simp add: terminateWorker_def)
qed

lemma stored_waiters_run: "stored_waiters (events (router_run ops)) = sent_waiters ops"
proof (induction ops rule: rev_induct)
  case Nil
  then show ?case by (simp add: router_run_def DatabaseManager_def)
next
  case (snoc op ops)
  then show ?case
    using stored_waiters_step [of "router_run ops" op]
    by (simp add: router_run_def sent_waiters_append)
qed

text \<open>
  C7. Every call of \<open>postToWorker\<close>, in any state of the router, adds exactly two
  effects, in this order: first the \<open>set\<close> that stores the waiter in
  \<open>pendingOperations\<close> under the generated id, then the post of the request message
  (or, when the worker has been disposed of, the rejection of the new promise, and no
  post). The table holds the waiter under that id from then on. And in every run of the
  router (any sequence of sends, replies and disposal), the waiters stored are those of
  the sends, one per send and in their order, and each message posted to the worker
  comes directly after a \<open>set\<close> whose waiter is in the table at the moment of posting;
  no message is posted before its waiter is stored.
\<close>

theorem postToWorker_registers_before_posting:
  "events (postToWorker r random36 waiter act data)
     = events r @ [MapSet (generateOperationId random36) waiter,
                   if worker_alive r
                   then WorkerPost (spread_message (generateOperationId random36) act data)
                   else Reject waiter null_worker_error]
   \<and> map_of (pendingOperations (postToWorker r random36 waiter act data))
         (generateOperationId random36) = Some waiter
   \<and> worker_alive (postToWorker r random36 waiter act data) = worker_alive r
   \<and> stored_waiters (events (router_run ops)) = sent_waiters ops
   \<and> registered_then_posted [] None (events (router_run ops))"
  using router_run_invariant [of ops] stored_waiters_run [of ops]
  by (simp add: postToWorker_def Let_def map_of_update_same)

text \<open>
  C1. The operation id is the random text cut to nine characters, with no check against
  the pending table. When \<open>Math.random()\<close> gives 0.5 twice (\<open>"0.i"\<close> in base 36), two
  requests that are pending together both carry the id \<open>"i"\<close>; the second \<open>set\<close>
  replaces the first waiter, one reply settles waiter 2, and waiter 1 is left
  unsettled with no entry in the table.
\<close>

theorem generateOperationId_collision:
  "generateOperationId ''0.i'' = ''i''
   \<and> pendingOperations (router_run [Send ''0.i'' 1 ''executeQueries'' blank_data,
                                     Send ''0.i'' 2 ''closeDatabase'' blank_data])
       = [(''i'', 2)]
   \<and> events (router_run [Send ''0.i'' 1 ''executeQueries'' blank_data,
                          Send ''0.i'' 2 ''closeDatabase'' blank_data,
                          Receive (ResultReply ''i'' Null)])
       = [MapSet ''i'' 1,
          WorkerPost (blank_message\<lparr>operationId := ''i'', action := ''executeQueries''\<rparr>),
          MapSet ''i'' 2,
          WorkerPost (blank_message\<lparr>operationId := ''i'', action := ''closeDatabase''\<rparr>),
          Resolve 2 Null, MapDelete ''i'']
   \<and> pendingOperations (router_run [Send ''0.i'' 1 ''executeQueries'' blank_data,
                                     Send ''0.i'' 2 ''closeDatabase'' blank_data,
                                     Receive (ResultReply ''i'' Null)])
       = []"
  by (simp add: router_run_def DatabaseManager_def postToWorker_def generateOperationId_def
        DatabaseManager_onmessage_def spread_message_def blank_data_def blank_message_def Let_def)

section \<open>The statement pipeline\<close>

text \<open>The definitions unfolded to run the model on a concrete engine.\<close>

lemmas model_defs =
  scripted_engine_def open_helper_def executePreparedStatement_def
  compileAndBindSQLiteStatement_def first_step_def Let_def
  executePreparedStatements_def executeQueries_def sqlite3_call_def engine_call_def
  BEGIN_def COMMIT_def ROLLBACK_def type_error_def not_initialized_def

text \<open>The pipeline's promise is never rejected: it resolves or stays unsettled.\<close>

lemma executePreparedStatement_never_rejects:
  "fst (executePreparedStatement h eng tr q vs) \<noteq> Rejected e"
  by (auto simp: executePreparedStatement_def Let_def split: prod.splits sum.splits result.splits)

text \<open>
  Once a statement has been compiled and bound, it is stepped and then finalized,
  whether the step threw or not, and \<open>finalize\<close> is the last call made.
\<close>

lemma executePreparedStatement_finalizes:
  assumes "compileAndBindSQLiteStatement h eng tr q vs = (Inr st, tr1)"
  shows "\<exists>mid. snd (executePreparedStatement h eng tr q vs)
                 = tr1 @ Step (sid st) # mid @ [Finalize (sid st)]"
  using assms
  by (auto simp: executePreparedStatement_def Let_def split: result.splits)

text \<open>A step failure is returned in the error slot, after the statement is finalized.\<close>

lemma executePreparedStatement_step_error:
  assumes "compileAndBindSQLiteStatement h eng tr q vs = (Inr st, tr1)"
    and "first_step st = Throws m"
    and "respond eng (tr1 @ [Step (sid st)]) (Finalize (sid st)) = Returns u"
  shows "executePreparedStatement h eng tr q vs
           = (Resolved (Str m, Null), tr1 @ [Step (sid st), Finalize (sid st)])"
  using assms by (simp add: executePreparedStatement_def Let_def)

text \<open>
  C4. A compile or bind failure is not returned in the error slot. With a text that
  does not compile, \<open>prepare\<close> throws before the \<open>try\<close> block: the call never settles,
  so no pair results. With a bind failure the statement has been compiled, the call
  never settles, and the trace ends without \<open>finalize\<close>.
\<close>

theorem executePreparedStatement_hangs:
  "executePreparedStatement open_helper syntax_error_engine [] ''INSERT INTO'' []
     = (Pending, [Prepare (Num 1) ''INSERT INTO''])
   \<and> executePreparedStatement open_helper bind_error_engine []
        (query insert_alice) (vals insert_alice)
     = (Pending, [Prepare (Num 1) ''INSERT INTO test_table (name) VALUES (?);'',
                  BindText 0 1 (Str ''Alice'')])"
  by (simp add: model_defs syntax_error_engine_def bind_error_engine_def insert_alice_def)

section \<open>The transaction executor\<close>

lemma length_pipeline_runs: "length (pipeline_runs h eng tr ss) = length ss"
  by (induction ss arbitrary: tr) (simp_all add: Let_def)

lemma run_statements_all_succeed:
  "list_all succeeds (pipeline_runs h eng tr ss) \<Longrightarrow>
   run_statements h eng tr ss ids =
     (Resolved (ids @ map last_id (pipeline_runs h eng tr ss)),
      trace_after tr (pipeline_runs h eng tr ss))"
proof (induction ss arbitrary: tr ids)
  case Nil
  then show ?case by (simp add: trace_after_def)
next
  case (Cons s ss)
  obtain r tr1 where p: "executePreparedStatement h eng tr (query s) (vals s) = (r, tr1)"
    by (cases "executePreparedStatement h eng tr (query s) (vals s)")
  from Cons.prems p obtain e l where r: "r = Resolved (e, l)" and e: "\<not> truthy e"
    and rest: "list_all succeeds (pipeline_runs h eng tr1 ss)"
    by (cases r) (auto elim: succeeds.elims)
  have ta: "trace_after tr ((Resolved (e, l), tr1) # pipeline_runs h eng tr1 ss)
            = trace_after tr1 (pipeline_runs h eng tr1 ss)"
    by (simp add: trace_after_def)
  show ?case
    using Cons.IH [OF rest, of "ids @ [l]"] p r e ta by simp
qed

lemma run_statements_first_error:
  "k < length ss \<Longrightarrow>
   list_all succeeds (take k (pipeline_runs h eng tr ss)) \<Longrightarrow>
   reports_error (pipeline_runs h eng tr ss ! k) \<Longrightarrow>
   run_statements h eng tr ss ids =
     (Rejected (error_slot (pipeline_runs h eng tr ss ! k)), snd (pipeline_runs h eng tr ss ! k))"
proof (induction ss arbitrary: tr ids k)
  case Nil
  then show ?case by simp
next
  case (Cons s ss)
  obtain r tr1 where p: "executePreparedStatement h eng tr (query s) (vals s) = (r, tr1)"
    by (cases "executePreparedStatement h eng tr (query s) (vals s)")
  show ?case
  proof (cases k)
    case 0
    with Cons.prems p obtain e l where "r = Resolved (e, l)" "truthy e"
      by (cases r) (auto elim: reports_error.elims)
    then show ?thesis using p 0 by simp
  next
    case (Suc j)
    with Cons.prems p obtain e l where r: "r = Resolved (e, l)" and e: "\<not> truthy e"
      by (cases r) (auto elim: succeeds.elims)
    have "run_statements h eng tr1 ss (ids @ [l]) =
            (Rejected (error_slot (pipeline_runs h eng tr1 ss ! j)), snd (pipeline_runs h eng tr1 ss ! j))"
      using Cons.IH [of j tr1 "ids @ [l]"] Cons.prems Suc p by simp
    then show ?thesis using p r e Suc by simp
  qed
qed


lemma bind_values_extends:
  "\<exists>rest. snd (bind_values eng s i vs tr) = tr @ rest \<and> list_all (\<lambda>c. \<not> is_exec c) rest"
proof (induction vs arbitrary: i tr)
  case Nil
  then show ?case by simp
next
  case (Cons v vs)
  show ?case
  proof (cases "respond eng tr (BindText s (i + 1) v)")
    case (Returns u)
    obtain rest where "snd (bind_values eng s (i + 1) vs (tr @ [BindText s (i + 1) v]))
                        = (tr @ [BindText s (i + 1) v]) @ rest"
      and "list_all (\<lambda>c. \<not> is_exec c) rest"
      using Cons.IH by blast
    then show ?thesis using Returns by simp
  next
    case (Throws m)
    then show ?thesis by simp
  qed
qed

lemma compileAndBind_extends:
  "\<exists>rest. snd (compileAndBindSQLiteStatement h eng tr q vs) = tr @ rest
          \<and> list_all (\<lambda>c. \<not> is_exec c) rest"
proof (cases "sqlite3 h")
  case False
  then show ?thesis by (simp add: compileAndBindSQLiteStatement_def)
next
  case True
  show ?thesis
  proof (cases "prepare eng tr (db h) q")
    case (Throws m)
    then show ?thesis using True by (simp add: compileAndBindSQLiteStatement_def)
  next
    case (Returns st)
    obtain rest where b: "snd (bind_values eng (sid st) 0 vs (tr @ [Prepare (db h) q]))
                           = (tr @ [Prepare (db h) q]) @ rest"
      and n: "list_all (\<lambda>c. \<not> is_exec c) rest"
      using bind_values_extends by blast
    show ?thesis using True Returns b n
      by (auto simp: compileAndBindSQLiteStatement_def split: prod.splits option.splits)
  qed
qed

lemma executePreparedStatement_extends:
  "\<exists>rest. snd (executePreparedStatement h eng tr q vs) = tr @ rest
          \<and> list_all (\<lambda>c. \<not> is_exec c) rest"
proof -
  obtain r tr1 where c: "compileAndBindSQLiteStatement h eng tr q vs = (r, tr1)"
    by (cases "compileAndBindSQLiteStatement h eng tr q vs")
  obtain rest where e: "tr1 = tr @ rest" and n: "list_all (\<lambda>c. \<not> is_exec c) rest"
    using compileAndBind_extends [of h eng tr q vs] c by auto
  show ?thesis
  proof (cases r)
    case (Inl err)
    then show ?thesis using c e n by (simp add: executePreparedStatement_def)
  next
    case (Inr st)
    then show ?thesis using c e n
      by (auto simp: executePreparedStatement_def Let_def split: result.splits)
  qed
qed

lemma pipeline_runs_extends:
  "\<exists>rest. trace_after tr (pipeline_runs h eng tr ss) = tr @ rest
          \<and> list_all (\<lambda>c. \<not> is_exec c) rest"
proof (induction ss arbitrary: tr)
  case Nil
  then show ?case by (simp add: trace_after_def)
next
  case (Cons s ss)
  let ?r = "executePreparedStatement h eng tr (query s) (vals s)"
  obtain rest1 where a: "snd ?r = tr @ rest1" and n1: "list_all (\<lambda>c. \<not> is_exec c) rest1"
    using executePreparedStatement_extends by blast
  obtain rest2 where b: "trace_after (snd ?r) (pipeline_runs h eng (snd ?r) ss) = snd ?r @ rest2"
    and n2: "list_all (\<lambda>c. \<not> is_exec c) rest2"
    using Cons.IH by blast
  have "trace_after tr (pipeline_runs h eng tr (s # ss))
          = trace_after (snd ?r) (pipeline_runs h eng (snd ?r) ss)"
    by (simp add: trace_after_def)
  then show ?case using a b n1 n2 by simp
qed

lemma pipeline_runs_take:
  "take k (pipeline_runs h eng tr ss) = pipeline_runs h eng tr (take k ss)"
proof (induction ss arbitrary: tr k)
  case Nil
  then show ?case by simp
next
  case (Cons s ss)
  then show ?case by (cases k) simp_all
qed

lemma trace_after_take:
  assumes "k < length ss"
  shows "trace_after tr (pipeline_runs h eng tr (take (Suc k) ss)) = snd (pipeline_runs h eng tr ss ! k)"
proof -
  have l: "length (pipeline_runs h eng tr ss) = length ss"
    by (rule length_pipeline_runs)
  have "pipeline_runs h eng tr (take (Suc k) ss) = take (Suc k) (pipeline_runs h eng tr ss)"
    by (simp add: pipeline_runs_take)
  also have "\<dots> = take k (pipeline_runs h eng tr ss) @ [pipeline_runs h eng tr ss ! k]"
    using assms l by (simp add: take_Suc_conv_app_nth)
  finally show ?thesis by (simp add: trace_after_def)
qed

lemma no_exec_count: "list_all (\<lambda>c. \<not> is_exec c) rest \<Longrightarrow> count_list rest (Exec d q) = 0"
  by (induction rest) auto

text \<open>
  C2, as the claim states it, fails when the \<open>ROLLBACK\<close> issued in the \<open>catch\<close> block
  throws: the pipeline reports an error for the only statement, and the call rejects
  with the engine's rollback failure instead of returning \<open>(error, null)\<close>.
\<close>

theorem executePreparedStatements_rollback_throws:
  "reports_error (pipeline_runs open_helper (constraint_engine True)
                    [Exec (Num 1) BEGIN] [insert_duplicate] ! 0)
   \<and> fst (executePreparedStatements open_helper (constraint_engine True) [] [insert_duplicate] True)
       = Rejected (ErrorObj ''Error'' ''cannot rollback - no transaction is active'')"
  by (simp add: model_defs constraint_engine_def insert_duplicate_def dup_query_def)

text \<open>
  C2, amended. When \<open>BEGIN\<close> has succeeded, the statements before position \<open>k\<close>
  succeed and the pipeline reports an error (a truthy error slot) for the statement at
  \<open>k\<close>: the engine calls made are those of the pipelines of the statements up to \<open>k\<close>
  and no later one, followed by \<open>ROLLBACK\<close> exactly when \<open>rollbackOnError\<close>; no
  \<open>COMMIT\<close> is issued; and the call returns \<open>(error, null)\<close> with a non-null error,
  unless the \<open>ROLLBACK\<close> itself throws, in which case the call rejects with that
  failure.
\<close>

theorem executePreparedStatements_fail_fast:
  assumes begun: "sqlite3_call h eng tr (Exec (db h) BEGIN) = (Inr u, tr1)"
    and k: "k < length stmts"
    and before: "list_all succeeds (take k (pipeline_runs h eng tr1 stmts))"
    and at_k: "reports_error (pipeline_runs h eng tr1 stmts ! k)"
  shows "snd (executePreparedStatements h eng tr stmts rb)
           = trace_after tr1 (pipeline_runs h eng tr1 (take (Suc k) stmts))
               @ (if rb then [Exec (db h) ROLLBACK] else [])
         \<and> fst (executePreparedStatements h eng tr stmts rb)
           = (if rb
              then (case respond eng (trace_after tr1 (pipeline_runs h eng tr1 (take (Suc k) stmts)))
                           (Exec (db h) ROLLBACK) of
                      Returns v \<Rightarrow> Resolved (Arr [error_slot (pipeline_runs h eng tr1 stmts ! k), Null])
                    | Throws m \<Rightarrow> Rejected (ErrorObj ''Error'' m))
              else Resolved (Arr [error_slot (pipeline_runs h eng tr1 stmts ! k), Null]))
         \<and> error_slot (pipeline_runs h eng tr1 stmts ! k) \<noteq> Null
         \<and> count_list (drop (length tr1) (snd (executePreparedStatements h eng tr stmts rb)))
             (Exec (db h) COMMIT) = 0"
proof -
  let ?runs = "pipeline_runs h eng tr1 stmts"
  let ?tk = "trace_after tr1 (pipeline_runs h eng tr1 (take (Suc k) stmts))"
  have sq: "sqlite3 h"
    using begun by (auto simp: sqlite3_call_def split: if_splits)
  have loop: "run_statements h eng tr1 stmts [] = (Rejected (error_slot (?runs ! k)), ?tk)"
    using run_statements_first_error [OF k before at_k] trace_after_take [OF k] by simp
  have nn: "error_slot (?runs ! k) \<noteq> Null"
    using at_k by (auto elim!: reports_error.elims)
  obtain rest where ext: "?tk = tr1 @ rest" and ne: "list_all (\<lambda>c. \<not> is_exec c) rest"
    using pipeline_runs_extends by blast
  have res: "executePreparedStatements h eng tr stmts rb =
          (if rb
           then (case respond eng ?tk (Exec (db h) ROLLBACK) of
                   Returns v \<Rightarrow> (Resolved (Arr [error_slot (?runs ! k), Null]), ?tk @ [Exec (db h) ROLLBACK])
                 | Throws m \<Rightarrow> (Rejected (ErrorObj ''Error'' m), ?tk @ [Exec (db h) ROLLBACK]))
           else (Resolved (Arr [error_slot (?runs ! k), Null]), ?tk))"
    using begun loop sq
    by (simp add: executePreparedStatements_def sqlite3_call_def engine_call_def split:
          result.splits)
  have cnt: "count_list (drop (length tr1) (snd (executePreparedStatements h eng tr stmts rb)))
             (Exec (db h) COMMIT) = 0"
    using res ext no_exec_count [OF ne, of "db h" COMMIT]
    by (auto simp: ROLLBACK_def COMMIT_def split: result.splits)
  show ?thesis using res nn cnt by (auto split: result.splits)
qed

theorem executePreparedStatements_fail_fast_witness:
  "sqlite3_call open_helper (constraint_engine False) [] (Exec (db open_helper) BEGIN)
     = (Inr (Num 0), [Exec (Num 1) BEGIN])
   \<and> 1 < length [insert_alice, insert_duplicate, insert_bob]
   \<and> list_all succeeds (take 1 (pipeline_runs open_helper (constraint_engine False)
                                    [Exec (Num 1) BEGIN] [insert_alice, insert_duplicate, insert_bob]))
   \<and> reports_error (pipeline_runs open_helper (constraint_engine False)
                       [Exec (Num 1) BEGIN] [insert_alice, insert_duplicate, insert_bob] ! 1)
   \<and> snd (executePreparedStatements open_helper (constraint_engine False) []
             [insert_alice, insert_duplicate, insert_bob] True)
       = [Exec (Num 1) ''BEGIN TRANSACTION;'',
          Prepare (Num 1) ''INSERT INTO test_table (name) VALUES (?);'',
          BindText 1 1 (Str ''Alice''), Step 1, LastInsertRowid 1, Finalize 1,
          Prepare (Num 1) ''INSERT OR ROLLBACK INTO test_table (id) VALUES (1);'',
          Step 6, Finalize 6, Exec (Num 1) ''ROLLBACK;'']
   \<and> fst (executePreparedStatements open_helper (constraint_engine False) []
             [insert_alice, insert_duplicate, insert_bob] True)
       = Resolved (Arr [Str ''UNIQUE constraint failed: test_table.id'', Null])"
proof -
  have b: "sqlite3_call open_helper (constraint_engine False) [] (Exec (db open_helper) BEGIN)
             = (Inr (Num 0), [Exec (Num 1) BEGIN])"
    by (simp add: model_defs constraint_engine_def insert_alice_def insert_duplicate_def
          insert_bob_def dup_query_def)
  have k: "1 < length [insert_alice, insert_duplicate, insert_bob]"
    by simp
  have p: "list_all succeeds (take 1 (pipeline_runs open_helper (constraint_engine False)
                                    [Exec (Num 1) BEGIN] [insert_alice, insert_duplicate, insert_bob]))"
    by (simp add: model_defs constraint_engine_def insert_alice_def insert_duplicate_def
          insert_bob_def dup_query_def)
  have e: "reports_error (pipeline_runs open_helper (constraint_engine False)
                       [Exec (Num 1) BEGIN] [insert_alice, insert_duplicate, insert_bob] ! 1)"
    by (simp add: model_defs constraint_engine_def insert_alice_def insert_duplicate_def
          insert_bob_def dup_query_def)
  show ?thesis
    using executePreparedStatements_fail_fast [OF b k p e, of True] b k p e
    by (simp add: model_defs constraint_engine_def insert_alice_def insert_duplicate_def
          insert_bob_def dup_query_def trace_after_def)
qed

text \<open>
  C3, as the claim states it, fails when \<open>COMMIT\<close> throws: both statements succeed,
  \<open>COMMIT\<close> is issued, and the call returns \<open>(error, null)\<close> after a \<open>ROLLBACK\<close>.
\<close>

theorem executePreparedStatements_commit_throws:
  "list_all succeeds (pipeline_runs open_helper commit_fails_engine
                        [Exec (Num 1) BEGIN] [insert_alice, insert_bob])
   \<and> fst (executePreparedStatements open_helper commit_fails_engine [] [insert_alice, insert_bob] True)
       = Resolved (Arr [ErrorObj ''Error'' ''disk I/O error'', Null])"
  by (simp add: model_defs commit_fails_engine_def insert_alice_def insert_bob_def)

text \<open>
  C3, amended. When \<open>BEGIN\<close> has succeeded and every statement of the batch succeeds,
  \<open>COMMIT\<close> is issued exactly once, right after the last statement's pipeline, and
  \<open>idList\<close> below has one entry per statement, the identifier the pipeline returned
  for it, in input order. If the \<open>COMMIT\<close> does not throw, it is the last call and
  the call returns \<open>(null, idList)\<close>. If the \<open>COMMIT\<close> throws, the \<open>catch\<close> block
  runs: with \<open>rollbackOnError\<close> a \<open>ROLLBACK\<close> is issued, and the call returns
  \<open>(error, null)\<close> with the error of the \<open>COMMIT\<close>, unless that \<open>ROLLBACK\<close> throws
  too, in which case the call rejects with the failure of the \<open>ROLLBACK\<close>.
\<close>

theorem executePreparedStatements_commit:
  assumes begun: "sqlite3_call h eng tr (Exec (db h) BEGIN) = (Inr u, tr1)"
    and all_ok: "list_all succeeds (pipeline_runs h eng tr1 stmts)"
  shows "executePreparedStatements h eng tr stmts rb
           = (case respond eng (trace_after tr1 (pipeline_runs h eng tr1 stmts)) (Exec (db h) COMMIT) of
                Returns v \<Rightarrow>
                  (Resolved (Arr [Null, Arr (map last_id (pipeline_runs h eng tr1 stmts))]),
                   trace_after tr1 (pipeline_runs h eng tr1 stmts) @ [Exec (db h) COMMIT])
              | Throws m \<Rightarrow>
                  (if rb
                   then (case respond eng
                                (trace_after tr1 (pipeline_runs h eng tr1 stmts) @ [Exec (db h) COMMIT])
                                (Exec (db h) ROLLBACK) of
                           Returns v \<Rightarrow>
                             (Resolved (Arr [ErrorObj ''Error'' m, Null]),
                              trace_after tr1 (pipeline_runs h eng tr1 stmts)
                                @ [Exec (db h) COMMIT, Exec (db h) ROLLBACK])
                         | Throws m' \<Rightarrow>
                             (Rejected (ErrorObj ''Error'' m'),
                              trace_after tr1 (pipeline_runs h eng tr1 stmts)
                                @ [Exec (db h) COMMIT, Exec (db h) ROLLBACK]))
                   else (Resolved (Arr [ErrorObj ''Error'' m, Null]),
                         trace_after tr1 (pipeline_runs h eng tr1 stmts) @ [Exec (db h) COMMIT])))
         \<and> length (map last_id (pipeline_runs h eng tr1 stmts)) = length stmts
         \<and> count_list (drop (length tr) (snd (executePreparedStatements h eng tr stmts rb)))
             (Exec (db h) COMMIT) = 1"
proof -
  let ?runs = "pipeline_runs h eng tr1 stmts"
  let ?T = "trace_after tr1 ?runs"
  have sq: "sqlite3 h"
    using begun by (auto simp: sqlite3_call_def split: if_splits)
  have t1: "tr1 = tr @ [Exec (db h) BEGIN]"
    using begun sq by (auto simp: sqlite3_call_def engine_call_def)
  have loop: "run_statements h eng tr1 stmts [] = (Resolved (map last_id ?runs), ?T)"
    using run_statements_all_succeed [OF all_ok, of "[]"] by simp
  have res: "executePreparedStatements h eng tr stmts rb
           = (case respond eng ?T (Exec (db h) COMMIT) of
                Returns v \<Rightarrow>
                  (Resolved (Arr [Null, Arr (map last_id ?runs)]), ?T @ [Exec (db h) COMMIT])
              | Throws m \<Rightarrow>
                  (if rb
                   then (case respond eng (?T @ [Exec (db h) COMMIT]) (Exec (db h) ROLLBACK) of
                           Returns v \<Rightarrow>
                             (Resolved (Arr [ErrorObj ''Error'' m, Null]),
                              ?T @ [Exec (db h) COMMIT, Exec (db h) ROLLBACK])
                         | Throws m' \<Rightarrow>
                             (Rejected (ErrorObj ''Error'' m'),
                              ?T @ [Exec (db h) COMMIT, Exec (db h) ROLLBACK]))
                   else (Resolved (Arr [ErrorObj ''Error'' m, Null]), ?T @ [Exec (db h) COMMIT])))"
    using begun loop sq
    by (simp add: executePreparedStatements_def sqlite3_call_def engine_call_def
          split: result.splits)
  obtain rest where ext: "?T = tr1 @ rest" and ne: "list_all (\<lambda>c. \<not> is_exec c) rest"
    using pipeline_runs_extends by blast
  have cnt: "count_list (drop (length tr) (snd (executePreparedStatements h eng tr stmts rb)))
             (Exec (db h) COMMIT) = 1"
    using ext t1 no_exec_count [OF ne, of "db h" COMMIT]
    by (simp add: res BEGIN_def COMMIT_def ROLLBACK_def split: result.splits)
  show ?thesis using res cnt by (simp add: length_pipeline_runs)
qed

theorem executePreparedStatements_commit_witness:
  "sqlite3_call open_helper accepting_engine [] (Exec (db open_helper) BEGIN)
     = (Inr (Num 0), [Exec (Num 1) BEGIN])
   \<and> list_all succeeds (pipeline_runs open_helper accepting_engine
                          [Exec (Num 1) BEGIN] [insert_alice, insert_bob])
   \<and> executePreparedStatements open_helper accepting_engine [] [insert_alice, insert_bob] True
       = (Resolved (Arr [Null, Arr [Num 1, Num 2]]),
          [Exec (Num 1) ''BEGIN TRANSACTION;'',
           Prepare (Num 1) ''INSERT INTO test_table (name) VALUES (?);'',
           BindText 1 1 (Str ''Alice''), Step 1, LastInsertRowid 1, Finalize 1,
           Prepare (Num 1) ''INSERT INTO test_table (name) VALUES (?);'',
           BindText 6 1 (Str ''Bob''), Step 6, LastInsertRowid 6, Finalize 6,
           Exec (Num 1) ''COMMIT;''])
   \<and> count_list (drop (length ([] :: call list))
                   (snd (executePreparedStatements open_helper accepting_engine []
                           [insert_alice, insert_bob] True)))
        (Exec (db open_helper) COMMIT) = 1
   \<and> sqlite3_call open_helper commit_fails_engine [] (Exec (db open_helper) BEGIN)
       = (Inr (Num 0), [Exec (Num 1) BEGIN])
   \<and> list_all succeeds (pipeline_runs open_helper commit_fails_engine
                          [Exec (Num 1) BEGIN] [insert_alice, insert_bob])
   \<and> executePreparedStatements open_helper commit_fails_engine [] [insert_alice, insert_bob] True
       = (Resolved (Arr [ErrorObj ''Error'' ''disk I/O error'', Null]),
          [Exec (Num 1) ''BEGIN TRANSACTION;'',
           Prepare (Num 1) ''INSERT INTO test_table (name) VALUES (?);'',
           BindText 1 1 (Str ''Alice''), Step 1, LastInsertRowid 1, Finalize 1,
           Prepare (Num 1) ''INSERT INTO test_table (name) VALUES (?);'',
           BindText 6 1 (Str ''Bob''), Step 6, LastInsertRowid 6, Finalize 6,
           Exec (Num 1) ''COMMIT;'', Exec (Num 1) ''ROLLBACK;''])
   \<and> sqlite3_call open_helper commit_rollback_fail_engine [] (Exec (db open_helper) BEGIN)
       = (Inr (Num 0), [Exec (Num 1) BEGIN])
   \<and> list_all succeeds (pipeline_runs open_helper commit_rollback_fail_engine
                          [Exec (Num 1) BEGIN] [insert_alice, insert_bob])
   \<and> fst (executePreparedStatements open_helper commit_rollback_fail_engine []
             [insert_alice, insert_bob] True)
       = Rejected (ErrorObj ''Error'' ''cannot rollback - no transaction is active'')"
proof -
  have b1: "sqlite3_call open_helper accepting_engine [] (Exec (db open_helper) BEGIN)
             = (Inr (Num 0), [Exec (Num 1) BEGIN])"
    by (simp add: model_defs accepting_engine_def)
  have p1: "list_all succeeds (pipeline_runs open_helper accepting_engine
                          [Exec (Num 1) BEGIN] [insert_alice, insert_bob])"
    by (simp add: model_defs accepting_engine_def insert_alice_def insert_bob_def)
  have b2: "sqlite3_call open_helper commit_fails_engine [] (Exec (db open_helper) BEGIN)
             = (Inr (Num 0), [Exec (Num 1) BEGIN])"
    by (simp add: model_defs commit_fails_engine_def)
  have p2: "list_all succeeds (pipeline_runs open_helper commit_fails_engine
                          [Exec (Num 1) BEGIN] [insert_alice, insert_bob])"
    by (simp add: model_defs commit_fails_engine_def insert_alice_def insert_bob_def)
  have b3: "sqlite3_call open_helper commit_rollback_fail_engine [] (Exec (db open_helper) BEGIN)
             = (Inr (Num 0), [Exec (Num 1) BEGIN])"
    by (simp add: model_defs commit_rollback_fail_engine_def)
  have p3: "list_all succeeds (pipeline_runs open_helper commit_rollback_fail_engine
                          [Exec (Num 1) BEGIN] [insert_alice, insert_bob])"
    by (simp add: model_defs commit_rollback_fail_engine_def insert_alice_def insert_bob_def)
  show ?thesis
    using executePreparedStatements_commit [OF b1 p1, of True]
          executePreparedStatements_commit [OF b2 p2, of True]
          executePreparedStatements_commit [OF b3 p3, of True] b1 p1 b2 p2 b3 p3
    by (simp add: model_defs accepting_engine_def commit_fails_engine_def
          commit_rollback_fail_engine_def insert_alice_def insert_bob_def trace_after_def)
qed

lemma exec_queries_append:
  "exec_queries h eng tr (xs @ ys) =
     (case exec_queries h eng tr xs of
        (Some e, tr1) \<Rightarrow> (Some e, tr1)
      | (None, tr1) \<Rightarrow> exec_queries h eng tr1 ys)"
  by (induction xs arbitrary: tr) (auto split: prod.splits sum.splits option.splits)

lemma exec_queries_trace:
  "sqlite3 h \<Longrightarrow> exec_queries h eng tr xs = (None, tr') \<Longrightarrow> tr' = tr @ map (Exec (db h)) xs"
proof (induction xs arbitrary: tr)
  case Nil
  then show ?case by simp
next
  case (Cons q qs)
  show ?case
  proof (cases "respond eng tr (Exec (db h) q)")
    case (Throws m)
    then show ?thesis using Cons.prems by (simp add: sqlite3_call_def engine_call_def)
  next
    case (Returns v)
    then have "exec_queries h eng (tr @ [Exec (db h) q]) qs = (None, tr')"
      using Cons.prems by (simp add: sqlite3_call_def engine_call_def)
    from Cons.IH [OF Cons.prems(1) this] show ?thesis by simp
  qed
qed

text \<open>
  C5, as the claim states it, fails when the \<open>ROLLBACK\<close> issued in the \<open>catch\<close> block
  throws: the error thrown is the rollback's own, and its message neither wraps the
  failure of the query nor says that a rollback occurred.
\<close>

theorem executeQueries_rollback_throws:
  "fst (executeQueries open_helper (constraint_engine True) [] [dup_query] True)
     = Rejected (ErrorObj ''Error'' ''cannot rollback - no transaction is active'')"
  by (simp add: model_defs constraint_engine_def dup_query_def)

text \<open>
  C5, amended. On an open handle, when \<open>BEGIN\<close> has succeeded, the queries before
  position \<open>k\<close> run without failure and the query at \<open>k\<close> throws error \<open>e\<close>: the
  engine calls made are \<open>BEGIN\<close> and the queries up to \<open>k\<close>, and no later query and
  no \<open>COMMIT\<close>. If \<open>rollbackOnError\<close> is true, \<open>ROLLBACK\<close> is then issued and the call
  throws an Error with message \<open>Transaction failed, rolled back: \<close> followed by the
  message of \<open>e\<close>, unless the \<open>ROLLBACK\<close> itself throws, in which case that failure
  is thrown as it is. If \<open>rollbackOnError\<close> is false, nothing more is issued (no
  \<open>ROLLBACK\<close>) and the call returns without error.
\<close>

theorem executeQueries_failure:
  assumes connected: "truthy (db h)"
    and begun: "sqlite3_call h eng tr (Exec (db h) BEGIN) = (Inr u, tr1)"
    and k: "k < length qs"
    and before: "exec_queries h eng tr1 (take k qs) = (None, tr2)"
    and at_k: "sqlite3_call h eng tr2 (Exec (db h) (qs ! k)) = (Inl e, tr3)"
  shows "tr3 = tr @ Exec (db h) BEGIN # map (Exec (db h)) (take (Suc k) qs)
         \<and> executeQueries h eng tr qs rb =
            (if rb
             then (case respond eng tr3 (Exec (db h) ROLLBACK) of
                     Returns v \<Rightarrow>
                       (Rejected (ErrorObj ''Error'' (''Transaction failed, rolled back: '' @ snd e)),
                        tr3 @ [Exec (db h) ROLLBACK])
                   | Throws m \<Rightarrow> (Rejected (ErrorObj ''Error'' m), tr3 @ [Exec (db h) ROLLBACK]))
             else (Resolved Undefined, tr3))"
proof -
  have sq: "sqlite3 h"
    using begun by (auto simp: sqlite3_call_def split: if_splits)
  have t1: "tr1 = tr @ [Exec (db h) BEGIN]"
    using begun sq by (auto simp: sqlite3_call_def engine_call_def)
  have t2: "tr2 = tr1 @ map (Exec (db h)) (take k qs)"
    using exec_queries_trace [OF sq before] .
  have t3: "tr3 = tr2 @ [Exec (db h) (qs ! k)]"
    using at_k sq by (auto simp: sqlite3_call_def engine_call_def)
  have split: "qs = take k qs @ (qs ! k) # drop (Suc k) qs"
    using k by (simp add: id_take_nth_drop)
  have "exec_queries h eng tr1 qs = exec_queries h eng tr1 (take k qs @ (qs ! k) # drop (Suc k) qs)"
    using split by simp
  also have "\<dots> = (Some e, tr3)"
    using before at_k by (simp add: exec_queries_append)
  finally have loop: "exec_queries h eng tr1 qs = (Some e, tr3)" .
  have tr: "tr3 = tr @ Exec (db h) BEGIN # map (Exec (db h)) (take (Suc k) qs)"
    using t1 t2 t3 k by (simp add: take_Suc_conv_app_nth)
  have res: "executeQueries h eng tr qs rb =
            (if rb
             then (case respond eng tr3 (Exec (db h) ROLLBACK) of
                     Returns v \<Rightarrow>
                       (Rejected (ErrorObj ''Error'' (''Transaction failed, rolled back: '' @ snd e)),
                        tr3 @ [Exec (db h) ROLLBACK])
                   | Throws m \<Rightarrow> (Rejected (ErrorObj ''Error'' m), tr3 @ [Exec (db h) ROLLBACK]))
             else (Resolved Undefined, tr3))"
    using connected begun loop sq
    by (simp add: executeQueries_def sqlite3_call_def engine_call_def split: result.splits)
  show ?thesis using tr res by blast
qed

theorem executeQueries_failure_witness:
  "truthy (db open_helper)
   \<and> sqlite3_call open_helper (constraint_engine False) [] (Exec (db open_helper) BEGIN)
       = (Inr (Num 0), [Exec (Num 1) BEGIN])
   \<and> 1 < length [create_table, dup_query, create_table]
   \<and> exec_queries open_helper (constraint_engine False) [Exec (Num 1) BEGIN]
        (take 1 [create_table, dup_query, create_table])
       = (None, [Exec (Num 1) BEGIN, Exec (Num 1) create_table])
   \<and> sqlite3_call open_helper (constraint_engine False)
        [Exec (Num 1) BEGIN, Exec (Num 1) create_table]
        (Exec (db open_helper) ([create_table, dup_query, create_table] ! 1))
       = (Inl (''Error'', ''UNIQUE constraint failed: test_table.id''),
          [Exec (Num 1) BEGIN, Exec (Num 1) create_table, Exec (Num 1) dup_query])
   \<and> executeQueries open_helper (constraint_engine False) [] [create_table, dup_query, create_table] True
       = (Rejected (ErrorObj ''Error''
            ''Transaction failed, rolled back: UNIQUE constraint failed: test_table.id''),
          [Exec (Num 1) BEGIN, Exec (Num 1) create_table, Exec (Num 1) dup_query,
           Exec (Num 1) ROLLBACK])
   \<and> executeQueries open_helper (constraint_engine False) [] [create_table, dup_query, create_table] False
       = (Resolved Undefined,
          [Exec (Num 1) BEGIN, Exec (Num 1) create_table, Exec (Num 1) dup_query])"
proof -
  have d: "truthy (db open_helper)"
    by (simp add: open_helper_def)
  have b: "sqlite3_call open_helper (constraint_engine False) [] (Exec (db open_helper) BEGIN)
             = (Inr (Num 0), [Exec (Num 1) BEGIN])"
    by (simp add: model_defs constraint_engine_def dup_query_def create_table_def)
  have k: "1 < length [create_table, dup_query, create_table]"
    by simp
  have p: "exec_queries open_helper (constraint_engine False) [Exec (Num 1) BEGIN]
             (take 1 [create_table, dup_query, create_table])
           = (None, [Exec (Num 1) BEGIN, Exec (Num 1) create_table])"
    by (simp add: model_defs constraint_engine_def dup_query_def create_table_def)
  have e: "sqlite3_call open_helper (constraint_engine False)
             [Exec (Num 1) BEGIN, Exec (Num 1) create_table]
             (Exec (db open_helper) ([create_table, dup_query, create_table] ! 1))
           = (Inl (''Error'', ''UNIQUE constraint failed: test_table.id''),
              [Exec (Num 1) BEGIN, Exec (Num 1) create_table, Exec (Num 1) dup_query])"
    by (simp add: model_defs constraint_engine_def dup_query_def create_table_def)
  show ?thesis
    using executeQueries_failure [OF d b k p e, of True]
          executeQueries_failure [OF d b k p e, of False] d b k p e
    by (simp add: model_defs constraint_engine_def dup_query_def create_table_def)
qed

section \<open>The dispatcher\<close>

text \<open>
  When the handler settles, one reply is posted and it echoes the operation id: the
  result when the handler returned, the message of the Error when it threw.
\<close>

lemma onmessage_posts_result:
  "fst (handle eng w msg) = Resolved v \<Longrightarrow>
   posted (onmessage eng w msg) = posted w @ [ResultReply (operationId msg) v]"
  by (cases "handle eng w msg") (auto simp: onmessage_def)

lemma onmessage_posts_error:
  "fst (handle eng w msg) = Rejected (ErrorObj n m) \<Longrightarrow>
   posted (onmessage eng w msg) = posted w @ [ErrorReply (operationId msg) (Str m)]"
  by (cases "handle eng w msg") (auto simp: onmessage_def)

text \<open>
  C6. A command whose handler never settles gets no reply. The worker is connected
  and receives \<open>executePreparedStatements\<close> with one statement whose text does not
  compile: the statement pipeline's promise stays unsettled, \<open>onmessage\<close> never
  reaches \<open>postMessage\<close>, and nothing is posted for the operation id.
\<close>

theorem onmessage_posts_nothing:
  "posted (onmessage syntax_error_engine connected_worker
             (blank_message\<lparr>operationId := ''i'', action := ''executePreparedStatements'',
                statements := [\<lparr>query = ''INSERT INTO'', vals = []\<rparr>]\<rparr>)) = []"
  by (simp add: model_defs syntax_error_engine_def connected_worker_def blank_message_def
        onmessage_def handle_def default_true_def)

text \<open>The guard of \<open>executeQueries\<close> and \<open>executeRawQuery\<close>: no engine call without a handle.\<close>

lemma executeQueries_requires_handle:
  "\<not> truthy (db h) \<Longrightarrow> executeQueries h eng tr qs rb = (Rejected not_initialized, tr)"
  by (simp add: executeQueries_def)

lemma executeRawQuery_requires_handle:
  "\<not> truthy (db h) \<Longrightarrow> executeRawQuery h eng tr q args = (Rejected not_initialized, tr)"
  by (simp add: executeRawQuery_def)

text \<open>
  C9. \<open>executePreparedStatements\<close> has no such guard. A helper whose \<open>open_v2\<close> failed
  has \<open>sqlite3\<close> assigned and \<open>db\<close> still null; on it the batch calls the engine with
  the null handle (\<open>BEGIN TRANSACTION\<close>) and returns the engine's error in a pair. On a
  helper fresh from the constructor it returns a TypeError in a pair. In neither case
  is the error \<open>Database not initialized\<close>, which \<open>executeQueries\<close> throws on the same
  helper before any engine call.
\<close>

theorem executePreparedStatements_without_handle:
  "snd (fst (initializeDatabase (DbHelper ''sync'') misuse_engine []))
     = \<lparr>databaseName = ''sync'', db = Null, sqlite3 = True\<rparr>
   \<and> executePreparedStatements \<lparr>databaseName = ''sync'', db = Null, sqlite3 = True\<rparr>
        misuse_engine [] [insert_alice] False
     = (Resolved (Arr [ErrorObj ''Error'' ''bad parameter or other API misuse'', Null]),
        [Exec Null ''BEGIN TRANSACTION;''])
   \<and> executePreparedStatements (DbHelper ''sync'') misuse_engine [] [insert_alice] False
     = (Resolved (Arr [ErrorObj ''TypeError'' ''Cannot read properties of undefined'', Null]), [])
   \<and> executeQueries \<lparr>databaseName = ''sync'', db = Null, sqlite3 = True\<rparr>
        misuse_engine [] [create_table] False
     = (Rejected (ErrorObj ''Error'' ''Database not initialized''), [])"
  by (simp add: model_defs misuse_engine_def insert_alice_def create_table_def
        initializeDatabase_def DbHelper_def)

lemma sqlite3_call_extends: "\<exists>rest. snd (sqlite3_call h eng tr c) = tr @ rest"
  by (simp add: sqlite3_call_def engine_call_def)

lemma exec_queries_extends: "\<exists>rest. snd (exec_queries h eng tr qs) = tr @ rest"
proof (induction qs arbitrary: tr)
  case Nil
  then show ?case by simp
next
  case (Cons q qs)
  obtain r tr1 where c: "sqlite3_call h eng tr (Exec (db h) q) = (r, tr1)"
    by (cases "sqlite3_call h eng tr (Exec (db h) q)")
  obtain rest1 where r1: "tr1 = tr @ rest1"
    using sqlite3_call_extends [of h eng tr "Exec (db h) q"] c by auto
  show ?case
  proof (cases r)
    case (Inl e)
    then show ?thesis using c r1 by simp
  next
    case (Inr u)
    obtain rest2 where "snd (exec_queries h eng tr1 qs) = tr1 @ rest2"
      using Cons.IH by blast
    then show ?thesis using c r1 Inr by simp
  qed
qed

lemma executeQueries_begins:
  assumes "truthy (db h)" "sqlite3 h"
  shows "\<exists>rest. snd (executeQueries h eng tr qs rb) = tr @ Exec (db h) BEGIN # rest"
proof -
  let ?tr1 = "tr @ [Exec (db h) BEGIN]"
  obtain r where c: "sqlite3_call h eng tr (Exec (db h) BEGIN) = (r, ?tr1)"
    using assms by (simp add: sqlite3_call_def engine_call_def)
  obtain rest2 where q: "snd (exec_queries h eng ?tr1 qs) = ?tr1 @ rest2"
    using exec_queries_extends by blast
  show ?thesis
    using assms c q
    by (auto simp: executeQueries_def Let_def sqlite3_call_def engine_call_def
             split: sum.splits option.splits prod.splits result.splits)
qed

lemma calls_onmessage: "calls (onmessage eng w msg) = snd (snd (handle eng w msg))"
  by (simp add: onmessage_def split: prod.splits outcome.splits result.splits)

lemma dbInstance_onmessage: "dbInstance (onmessage eng w msg) = fst (snd (handle eng w msg))"
  by (simp add: onmessage_def split: prod.splits outcome.splits result.splits)

lemma handle_closeDatabase:
  assumes "dbInstance w = Some h" "truthy (db h)" "sqlite3 h" "action msg = ''closeDatabase''"
  shows "snd (handle eng w msg) = (Some h, calls w @ [Close (db h)])"
  using assms
  by (simp add: handle_def closeDatabase_def sqlite3_call_def engine_call_def Let_def
           split: result.splits)

text \<open>
  C10. On a connected worker whose handle is open, after a \<open>closeDatabase\<close> command
  that the engine completes: \<open>dbInstance\<close> is the same helper, its \<open>db\<close> field still
  the handle; a second \<open>closeDatabase\<close> calls the engine's \<open>close\<close> on that handle
  again; \<open>executeQueries\<close> passes its handle check and issues \<open>BEGIN TRANSACTION\<close> on
  the closed handle; \<open>executeRawQuery\<close> passes its check and hands the query to
  \<open>exec\<close> on the closed handle.
\<close>

theorem closeDatabase_keeps_handle:
  assumes inst: "dbInstance w = Some h"
    and open_db: "truthy (db h)" "sqlite3 h"
    and closes: "respond eng (calls w) (Close (db h)) = Returns v"
    and m1: "action m1 = ''closeDatabase''"
    and m2: "action m2 = ''closeDatabase''"
    and m3: "action m3 = ''executeQueries''"
    and m4: "action m4 = ''executeRawQuery''"
  shows "posted (onmessage eng w m1)
           = posted w @ [ResultReply (operationId m1)
                           (Obj [(''success'', Bool True),
                                 (''message'', Str ''Database closed successfully'')])]
         \<and> dbInstance (onmessage eng w m1) = Some h
         \<and> truthy (db h)
         \<and> calls (onmessage eng w m1) = calls w @ [Close (db h)]
         \<and> calls (onmessage eng (onmessage eng w m1) m2) = calls w @ [Close (db h), Close (db h)]
         \<and> (\<exists>rest. calls (onmessage eng (onmessage eng w m1) m3)
                      = calls w @ [Close (db h), Exec (db h) BEGIN] @ rest)
         \<and> calls (onmessage eng (onmessage eng w m1) m4)
             = calls w @ [Close (db h), Exec (db h) (sql m4)]"
proof -
  let ?w1 = "onmessage eng w m1"
  have h1: "handle eng w m1 =
      (Resolved (Obj [(''success'', Bool True), (''message'', Str ''Database closed successfully'')]),
       Some h, calls w @ [Close (db h)])"
    using inst open_db closes m1
    by (simp add: handle_def closeDatabase_def sqlite3_call_def engine_call_def Let_def)
  have p: "posted ?w1 = posted w @ [ResultReply (operationId m1)
                           (Obj [(''success'', Bool True),
                                 (''message'', Str ''Database closed successfully'')])]"
    by (simp add: onmessage_def h1)
  have a: "dbInstance ?w1 = Some h" and b: "calls ?w1 = calls w @ [Close (db h)]"
    by (simp_all add: onmessage_def h1)
  have c2: "calls (onmessage eng ?w1 m2) = calls w @ [Close (db h), Close (db h)]"
    using handle_closeDatabase [OF a open_db m2, of eng] b by (simp add: calls_onmessage)
  obtain rest where q: "snd (executeQueries h eng (calls w @ [Close (db h)]) (queries m3)
                               (default_true (rollbackOnError m3)))
                        = (calls w @ [Close (db h)]) @ Exec (db h) BEGIN # rest"
    using executeQueries_begins [OF open_db] by blast
  have "snd (snd (handle eng ?w1 m3)) = calls w @ [Close (db h), Exec (db h) BEGIN] @ rest"
    using a b m3 q
    by (auto simp: handle_def Let_def split: prod.splits outcome.splits)
  then have c3: "\<exists>rest. calls (onmessage eng ?w1 m3)
                  = calls w @ [Close (db h), Exec (db h) BEGIN] @ rest"
    by (simp add: calls_onmessage)
  have c4: "calls (onmessage eng ?w1 m4) = calls w @ [Close (db h), Exec (db h) (sql m4)]"
    using a b open_db m4
    by (simp add: calls_onmessage handle_def executeRawQuery_def sqlite3_call_def
          engine_call_def Let_def split: result.splits prod.splits)
  show ?thesis using p a open_db(1) b c2 c3 c4 by blast
qed

theorem closeDatabase_keeps_handle_witness:
  "dbInstance connected_worker = Some open_helper
   \<and> truthy (db open_helper) \<and> sqlite3 open_helper
   \<and> respond accepting_engine (calls connected_worker) (Close (db open_helper)) = Returns (Num 0)
   \<and> dbInstance (onmessage accepting_engine connected_worker
                    (blank_message\<lparr>action := ''closeDatabase''\<rparr>)) = Some open_helper
   \<and> calls (onmessage accepting_engine
               (onmessage accepting_engine connected_worker (blank_message\<lparr>action := ''closeDatabase''\<rparr>))
               (blank_message\<lparr>action := ''closeDatabase''\<rparr>))
       = [Close (Num 1), Close (Num 1)]
   \<and> calls (onmessage accepting_engine
               (onmessage accepting_engine connected_worker (blank_message\<lparr>action := ''closeDatabase''\<rparr>))
               (blank_message\<lparr>action := ''executeRawQuery'', sql := select_alice\<rparr>))
       = [Close (Num 1), Exec (Num 1) select_alice]"
proof -
  have i: "dbInstance connected_worker = Some open_helper"
    by (simp add: connected_worker_def)
  have t: "truthy (db open_helper)" and s: "sqlite3 open_helper"
    by (simp_all add: open_helper_def)
  have c: "respond accepting_engine (calls connected_worker) (Close (db open_helper)) = Returns (Num 0)"
    by (simp add: model_defs accepting_engine_def connected_worker_def blank_message_def
          select_alice_def)
  have m: "action (blank_message\<lparr>action := ''closeDatabase''\<rparr>) = ''closeDatabase''"
    by simp
  have q: "action (blank_message\<lparr>action := ''executeQueries''\<rparr>) = ''executeQueries''"
    by simp
  have r: "action (blank_message\<lparr>action := ''executeRawQuery'', sql := select_alice\<rparr>) = ''executeRawQuery''"
    by simp
  show ?thesis
    using closeDatabase_keeps_handle [OF i t s c m m q r] i t s c
    by (simp add: connected_worker_def open_helper_def)
qed

section \<open>The query reader\<close>

lemma read_row_snoc:
  "read_row eng names (Suc n) cells
     = AList.update (names n) (column_value eng (cells n)) (read_row eng names n cells)"
  by (simp add: read_row_def)

lemma read_row_lookup:
  "i < n \<Longrightarrow> (\<forall>j. i < j \<and> j < n \<longrightarrow> names j \<noteq> names i) \<Longrightarrow>
   map_of (read_row eng names n cells) (names i) = Some (column_value eng (cells i))"
proof (induction n)
  case 0
  then show ?case by simp
next
  case (Suc n)
  show ?case
  proof (cases "i = n")
    case True
    then show ?thesis by (simp add: read_row_snoc update_conv')
  next
    case False
    then have "i < n" using Suc.prems by simp
    moreover have "\<forall>j. i < j \<and> j < n \<longrightarrow> names j \<noteq> names i" using Suc.prems by simp
    ultimately have "map_of (read_row eng names n cells) (names i) = Some (column_value eng (cells i))"
      using Suc.IH by blast
    moreover have "names n \<noteq> names i" using Suc.prems \<open>i < n\<close> by simp
    ultimately show ?thesis by (simp add: read_row_snoc update_conv')
  qed
qed











lemma executeSelectPreparedStatements_without_callback:
  "fst (executeSelectPreparedStatements h eng tr q args False) \<noteq> Resolved v"
  by (auto simp: executeSelectPreparedStatements_def call_back_def Let_def
           split: prod.splits sum.splits option.splits)




end
